theory Spec2Isabelle
  imports Complex_Main "HOL-Library.Sublist" "HOL-Library.AList"
begin

section \<open>Python values shared by the modules\<close>

text \<open>
  Exceptions are values. \<open>ValueError\<close> is what \<open>datetime.replace\<close> and
  \<open>datetime.strptime\<close> raise, \<open>KeyError\<close> what a dictionary subscript raises,
  \<open>TelegramError\<close> what the bot transport raises; \<open>OtherException\<close> stands for every
  other exception a collaborator may raise.
\<close>

datatype error = ValueError | KeyError | TelegramError | OtherException

text \<open>
  Strings are lists of bytes, the UTF-8 encoding of Python's strings. The program
  compares, concatenates and searches strings; on well-formed UTF-8 these give the same on
  bytes as on code points (a string occurs in another as bytes exactly where it occurs as
  code points).

  Three library functions depend on the Unicode tables of the interpreter and are not
  spelled out: \<open>str.lower\<close>, \<open>str.title\<close> and
  \<open>datetime.strptime(s, "%Y-%m-%d").date()\<close>, which returns a date (year, month, day)
  or raises ValueError. They are parameters of the model, and every theorem about the
  program holds whatever they are.
\<close>

type_synonym date = "nat \<times> nat \<times> nat"

record python =
  py_lower :: "string \<Rightarrow> string"
  py_title :: "string \<Rightarrow> string"
  py_strptime :: "string \<Rightarrow> error + date"

text \<open>Decimal digits, for \<open>strftime\<close>.\<close>

definition digit :: "nat \<Rightarrow> char" where
  "digit n = ''0123456789'' ! (n mod 10)"

definition fmt2 :: "nat \<Rightarrow> string" where
  "fmt2 n = [digit (n div 10), digit n]"

definition fmt4 :: "nat \<Rightarrow> string" where
  "fmt4 n = [digit (n div 1000), digit (n div 100), digit (n div 10), digit n]"

section \<open>time_management.py\<close>

datatype timezone = Australia_Melbourne | Australia_Brisbane | UTC

fun tz_name :: "timezone \<Rightarrow> string" where
  "tz_name Australia_Melbourne = ''Australia/Melbourne''"
| "tz_name Australia_Brisbane = ''Australia/Brisbane''"
| "tz_name UTC = ''UTC''"

text \<open>\<open>datetime.time\<close>: compared as the tuple (hour, minute, second, microsecond).\<close>

record pytime =
  t_hour :: nat
  t_minute :: nat
  t_second :: nat
  t_microsecond :: nat

definition mk_time :: "nat \<Rightarrow> nat \<Rightarrow> pytime" where
  "mk_time h m = \<lparr>t_hour = h, t_minute = m, t_second = 0, t_microsecond = 0\<rparr>"

definition time_less :: "pytime \<Rightarrow> pytime \<Rightarrow> bool" where
  "time_less a b =
     (t_hour a < t_hour b \<or> (t_hour a = t_hour b \<and>
       (t_minute a < t_minute b \<or> (t_minute a = t_minute b \<and>
         (t_second a < t_second b \<or> (t_second a = t_second b \<and>
           t_microsecond a < t_microsecond b))))))"

definition time_le :: "pytime \<Rightarrow> pytime \<Rightarrow> bool" where
  "time_le a b = (time_less a b \<or> a = b)"

record datetime =
  year :: nat
  month :: nat
  day :: nat
  hour :: nat
  minute :: nat
  second :: nat
  microsecond :: nat

definition is_leap :: "nat \<Rightarrow> bool" where
  "is_leap y = (y mod 4 = 0 \<and> (y mod 100 \<noteq> 0 \<or> y mod 400 = 0))"

definition days_in_month :: "nat \<Rightarrow> nat \<Rightarrow> nat" where
  "days_in_month y m =
     (if m = 2 then (if is_leap y then 29 else 28)
      else if m = 4 \<or> m = 6 \<or> m = 9 \<or> m = 11 then 30 else 31)"

text \<open>The datetimes the constructor of \<open>datetime\<close> accepts.\<close>

definition valid_datetime :: "datetime \<Rightarrow> bool" where
  "valid_datetime d =
     (1 \<le> year d \<and> year d \<le> 9999 \<and> 1 \<le> month d \<and> month d \<le> 12 \<and>
      1 \<le> day d \<and> day d \<le> days_in_month (year d) (month d) \<and>
      hour d < 24 \<and> minute d < 60 \<and> second d < 60 \<and> microsecond d < 1000000)"

text \<open>\<open>now.time()\<close>\<close>

definition time_of :: "datetime \<Rightarrow> pytime" where
  "time_of d =
     \<lparr>t_hour = hour d, t_minute = minute d, t_second = second d,
      t_microsecond = microsecond d\<rparr>"

text \<open>
  \<open>datetime.replace\<close> builds a new datetime and so validates the new fields: a value out
  of range raises ValueError.
\<close>

definition replace_hms :: "datetime \<Rightarrow> nat \<Rightarrow> nat \<Rightarrow> nat \<Rightarrow> error + datetime" where
  "replace_hms d h m s =
     (if h < 24 \<and> m < 60 \<and> s < 60 then Inr (d\<lparr>hour := h, minute := m, second := s\<rparr>)
      else Inl ValueError)"

definition replace_day :: "datetime \<Rightarrow> nat \<Rightarrow> error + datetime" where
  "replace_day d n =
     (if 1 \<le> n \<and> n \<le> days_in_month (year d) (month d) then Inr (d\<lparr>day := n\<rparr>)
      else Inl ValueError)"

text \<open>\<open>strftime('%H:%M')\<close> and \<open>strftime('%Y-%m-%d %H:%M:%S')\<close>\<close>

definition strftime_HM :: "nat \<Rightarrow> nat \<Rightarrow> string" where
  "strftime_HM h m = fmt2 h @ '':'' @ fmt2 m"

definition strftime_full :: "datetime \<Rightarrow> string" where
  "strftime_full d =
     fmt4 (year d) @ ''-'' @ fmt2 (month d) @ ''-'' @ fmt2 (day d) @ '' '' @
     fmt2 (hour d) @ '':'' @ fmt2 (minute d) @ '':'' @ fmt2 (second d)"

text \<open>
  \<open>datetime.now(pytz.UTC).astimezone(tz)\<close>: the clock is a parameter that gives the local
  wall time of each zone.
\<close>

type_synonym clock = "timezone \<Rightarrow> datetime"

definition LOCATION_TIMEZONES :: "string \<rightharpoonup> timezone" where
  "LOCATION_TIMEZONES =
     [''melbourne'' \<mapsto> Australia_Melbourne, ''brisbane'' \<mapsto> Australia_Brisbane]"

definition DEFAULT_TIMEZONE :: timezone where
  "DEFAULT_TIMEZONE = UTC"

definition get_location_timezone :: "python \<Rightarrow> string \<Rightarrow> timezone" where
  "get_location_timezone py location =
     (let location_key = py_lower py location in
      case LOCATION_TIMEZONES location_key of
        Some tz \<Rightarrow> tz
      | None \<Rightarrow> DEFAULT_TIMEZONE)"

definition start_inactive :: pytime where
  "start_inactive = mk_time 22 0"

definition end_inactive :: pytime where
  "end_inactive = mk_time 6 30"

text \<open>The test of line 38 (and of line 75): the current time lies in the inactive period.\<close>

definition in_inactive_period :: "pytime \<Rightarrow> bool" where
  "in_inactive_period current_time =
     (time_le start_inactive current_time \<or> time_le current_time end_inactive)"

definition night_reason :: "string \<Rightarrow> pytime \<Rightarrow> string" where
  "night_reason location current_time =
     ''Nighttime hours in '' @ location @ '' (local time: '' @
     strftime_HM (t_hour current_time) (t_minute current_time) @ ''). Resuming at '' @
     strftime_HM (t_hour end_inactive) (t_minute end_inactive)"

definition day_reason :: "string \<Rightarrow> pytime \<Rightarrow> string" where
  "day_reason location current_time =
     ''Daytime hours in '' @ location @ '' (local time: '' @
     strftime_HM (t_hour current_time) (t_minute current_time) @ '')''"

definition is_monitoring_active :: "python \<Rightarrow> clock \<Rightarrow> string \<Rightarrow> error + (bool \<times> string \<times> datetime)" where
  "is_monitoring_active py clk location =
     (let tz = get_location_timezone py location;
          now = clk tz;
          current_time = time_of now
      in if in_inactive_period current_time then
           (case replace_hms now (t_hour end_inactive) (t_minute end_inactive) 0 of
              Inl e \<Rightarrow> Inl e
            | Inr next_active_time \<Rightarrow>
                (case (if time_less end_inactive current_time
                       then replace_day next_active_time (day now + 1)
                       else Inr next_active_time) of
                   Inl e \<Rightarrow> Inl e
                 | Inr next_active_time' \<Rightarrow>
                     Inr (False, night_reason location current_time, next_active_time')))
         else
           (case replace_hms now (t_hour start_inactive) (t_minute start_inactive) 0 of
              Inl e \<Rightarrow> Inl e
            | Inr next_inactive_time \<Rightarrow>
                Inr (True, day_reason location current_time, next_inactive_time)))"

text \<open>The dictionary \<open>get_monitoring_schedule\<close> returns.\<close>

record schedule =
  sched_location :: string
  sched_timezone :: string
  local_time :: string
  is_active :: bool
  next_change :: string
  next_status :: string
  active_hours :: string

definition get_monitoring_schedule :: "python \<Rightarrow> clock \<Rightarrow> string \<Rightarrow> error + schedule" where
  "get_monitoring_schedule py clk location =
     (let tz = get_location_timezone py location;
          now = clk tz;
          current_time = time_of now;
          active = (\<not> in_inactive_period current_time)
      in case (if active then
                 (case replace_hms now (t_hour start_inactive) (t_minute start_inactive) 0 of
                    Inl e \<Rightarrow> Inl e
                  | Inr nc \<Rightarrow> Inr (nc, ''inactive''))
               else
                 (case replace_hms now (t_hour end_inactive) (t_minute end_inactive) 0 of
                    Inl e \<Rightarrow> Inl e
                  | Inr nc \<Rightarrow>
                      (case (if time_less end_inactive current_time
                             then replace_day nc (day now + 1) else Inr nc) of
                         Inl e \<Rightarrow> Inl e
                       | Inr nc' \<Rightarrow> Inr (nc', ''active'')))) of
           Inl e \<Rightarrow> Inl e
         | Inr (nc, ns) \<Rightarrow>
             Inr \<lparr>sched_location = location, sched_timezone = tz_name tz,
                  local_time = strftime_full now, is_active = active,
                  next_change = strftime_full nc, next_status = ns,
                  active_hours =
                    strftime_HM (t_hour end_inactive) (t_minute end_inactive) @ '' - '' @
                    strftime_HM (t_hour start_inactive) (t_minute start_inactive)\<rparr>)"

section \<open>telegram.py\<close>

text \<open>
  Everything the program does to the outside world is recorded in a trace, in the order
  it happens. A collaborator outside the program (the bot transport, the classifier, the
  browser, the geocoder) is a function of the trace so far and of its arguments: it may
  answer differently each time it is called, and it may raise.

  Of the log lines only the SKIP lines of the subscriber loop are kept, since they tell
  which filter turned a subscriber down.
\<close>

datatype skip_reason = Excluded_word | Not_preferred | Neither_good_nor_near | Not_good_deal

datatype event =
    Bot_send int string
  | Bot_edit int int string
  | Sleep nat
  | Product_check int string string
  | Log_skip int skip_reason
  | Fetch_listings string string
  | Open_detail string
  | Write_pairs_log "string list"
  | Save_status

text \<open>The \<open>telegram.Message\<close> a successful send returns; only its id is read.\<close>

datatype message = Message (message_id: int)

text \<open>
  The result dictionary of the classifier. Python's \<open>True\<close> is the integer 1, so
  \<open>preferred\<close> is an integer, absent when the key is missing; the two deal flags are
  read for their truth value only and default to False.
\<close>

record classification =
  product_name :: string
  preferred :: "int option"
  is_good_deal :: bool
  near_good_deal :: bool

text \<open>
  One element of the search page: the three tags \<open>find\<close> looked for, each absent or
  present, the link tag with its \<open>href\<close> (absent or a string), the others with their
  stripped text.
\<close>

record raw_listing =
  link_element :: "string option option"
  price_element :: "string option"
  title_element :: "string option"

text \<open>
  Modelled from the spec: the collaborators that are not under src/. \<open>product_checker\<close>
  is the classification collaborator (module product_checking); \<open>search_page\<close> is the
  browser loading and parsing the search page of a (keyword, location), from
  \<open>driver.get\<close> to \<open>find_all\<close>; \<open>detail_view\<close> is the visit of a listing's detail
  view, from \<open>execute_script\<close> to the \<open>finally\<close> block, and yields the address and
  the coordinates the page gave (\<open>Unknown Address\<close> and None where it gave none), or the
  exception the browser raised outside the inner \<open>try\<close>; \<open>calculate_distance\<close> is the
  geocoder's (module location_check). \<open>bot_send_message\<close> and
  \<open>bot_edit_message_text\<close> are the methods of \<open>telegram.Bot\<close>. Coordinates are
  floating-point numbers that the program only passes on; they are reals here.
\<close>

record env =
  bot_send_message :: "event list \<Rightarrow> int \<Rightarrow> string \<Rightarrow> error + message"
  bot_edit_message_text :: "event list \<Rightarrow> int \<Rightarrow> int \<Rightarrow> string \<Rightarrow> error + unit"
  product_checker :: "event list \<Rightarrow> int \<Rightarrow> string \<Rightarrow> string \<Rightarrow> error + classification"
  search_page :: "event list \<Rightarrow> string \<Rightarrow> string \<Rightarrow> error + raw_listing list"
  detail_view :: "event list \<Rightarrow> string \<Rightarrow> error + (string \<times> real option \<times> real option)"
  calculate_distance :: "event list \<Rightarrow> real \<Rightarrow> real \<Rightarrow> real \<Rightarrow> real \<Rightarrow> error + string"

text \<open>
  \<open>new_main.py\<close> imports \<open>send_message\<close> and \<open>edit_message\<close> from a module
  \<open>telegram_utils\<close>; the functions of that name in \<open>telegram.py\<close> are the ones modelled.

  \<open>send_message\<close>: the loop \<open>for attempt in range(3)\<close>, given the attempts still to
  make. Only TelegramError is caught; any other exception leaves the function.
\<close>

fun send_message_loop ::
  "env \<Rightarrow> string \<Rightarrow> int \<Rightarrow> nat list \<Rightarrow> event list \<Rightarrow> (error + message option) \<times> event list"
where
  "send_message_loop env message chat_id [] tr = (Inr None, tr)"
| "send_message_loop env message chat_id (attempt # rest) tr =
     (case bot_send_message env tr chat_id message of
        Inr sent_msg \<Rightarrow> (Inr (Some sent_msg), tr @ [Bot_send chat_id message])
      | Inl e \<Rightarrow>
          if e = TelegramError then
            (if attempt < 2
             then send_message_loop env message chat_id rest
                    (tr @ [Bot_send chat_id message, Sleep (2 ^ (attempt + 1))])
             else send_message_loop env message chat_id rest
                    (tr @ [Bot_send chat_id message]))
          else (Inl e, tr @ [Bot_send chat_id message]))"

definition send_message ::
  "env \<Rightarrow> string \<Rightarrow> int \<Rightarrow> event list \<Rightarrow> (error + message option) \<times> event list"
where
  "send_message env message chat_id tr = send_message_loop env message chat_id [0..<3] tr"

fun edit_message_loop ::
  "env \<Rightarrow> int \<Rightarrow> int \<Rightarrow> string \<Rightarrow> nat list \<Rightarrow> event list \<Rightarrow> (error + bool) \<times> event list"
where
  "edit_message_loop env chat_id msg_id new_text [] tr = (Inr False, tr)"
| "edit_message_loop env chat_id msg_id new_text (attempt # rest) tr =
     (case bot_edit_message_text env tr chat_id msg_id new_text of
        Inr _ \<Rightarrow> (Inr True, tr @ [Bot_edit chat_id msg_id new_text])
      | Inl e \<Rightarrow>
          if e = TelegramError then
            (if attempt < 2
             then edit_message_loop env chat_id msg_id new_text rest
                    (tr @ [Bot_edit chat_id msg_id new_text, Sleep (2 ^ (attempt + 1))])
             else edit_message_loop env chat_id msg_id new_text rest
                    (tr @ [Bot_edit chat_id msg_id new_text]))
          else (Inl e, tr @ [Bot_edit chat_id msg_id new_text]))"

definition edit_message ::
  "env \<Rightarrow> int \<Rightarrow> int \<Rightarrow> string \<Rightarrow> event list \<Rightarrow> (error + bool) \<times> event list"
where
  "edit_message env chat_id msg_id new_text tr =
     edit_message_loop env chat_id msg_id new_text [0..<3] tr"

section \<open>new_main.py: data\<close>

record mode_flags =
  mode_only_preferred :: int
  near_good_deals :: int
  good_deals :: int

text \<open>
  A user record as \<open>fetch_users_from_db\<close> builds it. \<open>activation_status\<close> and
  \<open>expiry_date\<close> are read with \<open>user.get\<close> and a default, so they may be absent.
  The fields carry the prefix \<open>user_\<close>, those of a subscriber \<open>sub_\<close>, where the
  key is also the name of a variable of the program.
\<close>

record user =
  user_id :: int
  activation_status :: "int option"
  expiry_date :: "string option"
  user_keywords :: "string list"
  user_location :: string
  user_excluded_words :: "string list"
  user_fixed_lat :: real
  user_fixed_lon :: real
  user_modes :: mode_flags

text \<open>The dictionary appended to \<open>user_pair_map[pair]\<close>, one per subscribing user.\<close>

record subscriber =
  sub_chat_id :: int
  sub_excluded_words :: "string list"
  sub_fixed_lat :: real
  sub_fixed_lon :: real
  sub_modes :: mode_flags

text \<open>
  The state of the process: the two module globals, the set and the dictionary that
  \<open>monitor_all_pairs_together\<close> creates and shares with every task, and the trace.
  A Python set that is iterated is a list without duplicates, in insertion order
  (Python leaves the order open); \<open>seen_listings\<close> is only tested and added to.
\<close>

record state =
  LOCATION_STATUS :: "string \<rightharpoonup> schedule"
  LOCATION_USERS :: "string \<rightharpoonup> int list"
  seen_listings :: "string set"
  first_run :: "(string \<times> string) \<rightharpoonup> bool"
  trace :: "event list"

text \<open>The locals of \<open>generate_pairs_and_log\<close>.\<close>

record compiled =
  pairs :: "(string \<times> string) list"
  user_pair_map :: "((string \<times> string) \<times> subscriber list) list"
  active_pairs :: "(string \<times> string) list"

definition set_add :: "'a \<Rightarrow> 'a list \<Rightarrow> 'a list" where
  "set_add x xs = (if x \<in> set xs then xs else xs @ [x])"

text \<open>\<open>d[k].append(v)\<close> and \<open>d[k]\<close> on a \<open>defaultdict(list)\<close>\<close>

definition map_append :: "'k \<Rightarrow> 'v \<Rightarrow> ('k \<times> 'v list) list \<Rightarrow> ('k \<times> 'v list) list" where
  "map_append k v m =
     (case map_of m k of
        None \<Rightarrow> m @ [(k, [v])]
      | Some vs \<Rightarrow> AList.update k (vs @ [v]) m)"

definition lookup_list :: "('k \<times> 'v list) list \<Rightarrow> 'k \<Rightarrow> 'v list" where
  "lookup_list m k = (case map_of m k of None \<Rightarrow> [] | Some vs \<Rightarrow> vs)"

subsection \<open>Dates\<close>

definition date_of :: "datetime \<Rightarrow> date" where
  "date_of d = (year d, month d, day d)"

definition date_less :: "date \<Rightarrow> date \<Rightarrow> bool" where
  "date_less a b =
     (case a of (y1, m1, d1) \<Rightarrow> case b of (y2, m2, d2) \<Rightarrow>
        y1 < y2 \<or> (y1 = y2 \<and> (m1 < m2 \<or> (m1 = m2 \<and> d1 < d2))))"

subsection \<open>notify_status_change\<close>

definition newline :: string where
  "newline = [CHR 0x0A]"

text \<open>The UTF-8 bytes of the four emoji of the messages.\<close>

definition loudspeaker :: string where
  "loudspeaker = [CHR 0xF0, CHR 0x9F, CHR 0x93, CHR 0xA2]"

definition stop_sign :: string where
  "stop_sign = [CHR 0xF0, CHR 0x9F, CHR 0x9B, CHR 0x91]"

definition check_mark :: string where
  "check_mark = [CHR 0xE2, CHR 0x9C, CHR 0x85]"

definition warning_sign :: string where
  "warning_sign = [CHR 0xE2, CHR 0x9A, CHR 0xA0, CHR 0xEF, CHR 0xB8, CHR 0x8F]"

definition status_message :: "python \<Rightarrow> string \<Rightarrow> bool \<Rightarrow> string \<Rightarrow> datetime option \<Rightarrow> string" where
  "status_message py location active reason next_change_time =
     (let at_time = (case next_change_time of
                  Some d \<Rightarrow> strftime_HM (hour d) (minute d)
                | None \<Rightarrow> ''Unknown'')
      in if active then
           loudspeaker @ '' Monitoring has been resumed for '' @ py_title py location @ ''.'' @
           newline @ ''Reason: '' @ reason @ newline @ ''Will stop at: '' @ at_time
         else
           stop_sign @ '' Monitoring has been paused for '' @ py_title py location @ ''.'' @
           newline @ ''Reason: '' @ reason @ newline @ ''Will resume at: '' @ at_time)"

text \<open>
  \<open>asyncio.gather\<close> over one \<open>send_message\<close> per user id. \<open>gather\<close> starts every task
  and raises the first exception; the tasks run here one after the other, in the order
  of the list, and the first exception in that order is the one raised.
\<close>

fun gather_send :: "env \<Rightarrow> string \<Rightarrow> int list \<Rightarrow> event list \<Rightarrow> error option \<times> event list" where
  "gather_send env message [] tr = (None, tr)"
| "gather_send env message (uid # rest) tr =
     (case send_message env message uid tr of
        (r, tr1) \<Rightarrow>
          (case gather_send env message rest tr1 of
             (e, tr2) \<Rightarrow> ((case r of Inl e1 \<Rightarrow> Some e1 | Inr _ \<Rightarrow> e), tr2)))"

definition notify_status_change ::
  "python \<Rightarrow> env \<Rightarrow> string \<Rightarrow> bool \<Rightarrow> string \<Rightarrow> datetime option \<Rightarrow> state \<Rightarrow> error option \<times> state"
where
  "notify_status_change py env location active reason next_change_time st =
     (case LOCATION_USERS st location of
        None \<Rightarrow> (None, st)
      | Some user_ids \<Rightarrow>
          (case gather_send env (status_message py location active reason next_change_time)
                  user_ids (trace st) of
             (e, tr) \<Rightarrow> (e, st\<lparr>trace := tr\<rparr>)))"

subsection \<open>generate_pairs_and_log\<close>

text \<open>
  The test of line 162 for one user, the expiry date already parsed: the user is skipped
  when the activation flag is false or the expiry date is before today.
\<close>

definition skipped :: "date \<Rightarrow> int \<Rightarrow> date \<Rightarrow> bool" where
  "skipped today activation expiry_date_obj =
     (activation = 0 \<or> date_less expiry_date_obj today)"

text \<open>
  The body of \<open>for keyword in keywords\<close> (lines 178 to 199). An exception of the
  schedule engine leaves the loop, the function and the program.
\<close>

definition keyword_step ::
  "python \<Rightarrow> clock \<Rightarrow> user \<Rightarrow> string \<Rightarrow> compiled \<times> state \<Rightarrow> error option \<times> compiled \<times> state"
where
  "keyword_step py clk u keyword cs =
     (case cs of (acc, st) \<Rightarrow>
        let location = user_location u;
            pair = (keyword, location);
            acc1 = acc\<lparr>pairs := set_add pair (pairs acc)\<rparr>
        in case is_monitoring_active py clk location of
             Inl e \<Rightarrow> (Some e, acc1, st)
           | Inr (active, reason, next_change_time) \<Rightarrow>
               (case (if (case LOCATION_STATUS st (py_lower py location) of
                            None \<Rightarrow> True
                          | Some s \<Rightarrow> is_active s \<noteq> active)
                      then (case get_monitoring_schedule py clk location of
                              Inl e \<Rightarrow> Inl e
                            | Inr s \<Rightarrow>
                                Inr (st\<lparr>LOCATION_STATUS :=
                                          (LOCATION_STATUS st)(py_lower py location \<mapsto> s)\<rparr>))
                      else Inr st) of
                  Inl e \<Rightarrow> (Some e, acc1, st)
                | Inr st1 \<Rightarrow>
                    (None,
                     acc1\<lparr>active_pairs :=
                            (if active then set_add pair (active_pairs acc1)
                             else active_pairs acc1),
                          user_pair_map :=
                            map_append pair
                              \<lparr>sub_chat_id = user_id u,
                               sub_excluded_words = user_excluded_words u,
                               sub_fixed_lat = user_fixed_lat u,
                               sub_fixed_lon = user_fixed_lon u,
                               sub_modes = user_modes u\<rparr>
                              (user_pair_map acc1)\<rparr>,
                     st1)))"

fun keyword_loop ::
  "python \<Rightarrow> clock \<Rightarrow> user \<Rightarrow> string list \<Rightarrow> compiled \<times> state \<Rightarrow> error option \<times> compiled \<times> state"
where
  "keyword_loop py clk u [] cs = (None, cs)"
| "keyword_loop py clk u (keyword # rest) cs =
     (case keyword_step py clk u keyword cs of
        (Some e, cs1) \<Rightarrow> (Some e, cs1)
      | (None, cs1) \<Rightarrow> keyword_loop py clk u rest cs1)"

text \<open>The body of \<open>for user in users\<close> (lines 158 to 199).\<close>

definition user_step ::
  "python \<Rightarrow> clock \<Rightarrow> date \<Rightarrow> user \<Rightarrow> compiled \<times> state \<Rightarrow> error option \<times> compiled \<times> state"
where
  "user_step py clk today u cs =
     (case cs of (acc, st) \<Rightarrow>
        let activation = (case activation_status u of None \<Rightarrow> 0 | Some a \<Rightarrow> a);
            expiry = (case expiry_date u of None \<Rightarrow> ''1970-01-01'' | Some d \<Rightarrow> d)
        in case py_strptime py expiry of
             Inl e \<Rightarrow> (Some e, acc, st)
           | Inr expiry_date_obj \<Rightarrow>
               if skipped today activation expiry_date_obj then (None, acc, st)
               else
                 let location_key = py_lower py (user_location u);
                     ids = (case LOCATION_USERS st location_key of
                              None \<Rightarrow> []
                            | Some l \<Rightarrow> l);
                     st1 = st\<lparr>LOCATION_USERS :=
                                (LOCATION_USERS st)(location_key \<mapsto> set_add (user_id u) ids)\<rparr>
                 in keyword_loop py clk u (user_keywords u) (acc, st1))"

fun user_loop ::
  "python \<Rightarrow> clock \<Rightarrow> date \<Rightarrow> user list \<Rightarrow> compiled \<times> state \<Rightarrow> error option \<times> compiled \<times> state"
where
  "user_loop py clk today [] cs = (None, cs)"
| "user_loop py clk today (u # rest) cs =
     (case user_step py clk today u cs of
        (Some e, cs1) \<Rightarrow> (Some e, cs1)
      | (None, cs1) \<Rightarrow> user_loop py clk today rest cs1)"

text \<open>The lines of the pairs log (lines 203 to 206).\<close>

fun pairs_log_lines :: "python \<Rightarrow> clock \<Rightarrow> (string \<times> string) list \<Rightarrow> error + string list" where
  "pairs_log_lines py clk [] = Inr []"
| "pairs_log_lines py clk ((keyword, location) # rest) =
     (case is_monitoring_active py clk location of
        Inl e \<Rightarrow> Inl e
      | Inr (active, reason, next_change_time) \<Rightarrow>
          (case pairs_log_lines py clk rest of
             Inl e \<Rightarrow> Inl e
           | Inr ls \<Rightarrow>
               Inr ((keyword @ '' - '' @ location @ '' ['' @
                     (if active then ''ACTIVE'' else ''PAUSED'') @ ''] - '' @ reason @
                     newline) # ls)))"

text \<open>
  \<open>sysnow\<close> is \<open>datetime.now()\<close>, the local time of the machine; only its date is used.
  The function returns \<open>(active_pairs, user_pair_map)\<close>.
\<close>

definition generate_pairs_and_log ::
  "python \<Rightarrow> clock \<Rightarrow> datetime \<Rightarrow> user list \<Rightarrow> state \<Rightarrow>
   (error + (string \<times> string) list \<times> ((string \<times> string) \<times> subscriber list) list) \<times> state"
where
  "generate_pairs_and_log py clk sysnow users st =
     (let st0 = st\<lparr>LOCATION_USERS := Map.empty\<rparr>;
          today = date_of sysnow
      in case user_loop py clk today users
                (\<lparr>pairs = [], user_pair_map = [], active_pairs = []\<rparr>, st0) of
           (Some e, acc, st1) \<Rightarrow> (Inl e, st1)
         | (None, acc, st1) \<Rightarrow>
             (case pairs_log_lines py clk (pairs acc) of
                Inl e \<Rightarrow> (Inl e, st1)
              | Inr ls \<Rightarrow>
                  (Inr (active_pairs acc, user_pair_map acc),
                   st1\<lparr>trace := trace st1 @ [Write_pairs_log ls, Save_status]\<rparr>)))"

subsection \<open>check_marketplace_pair\<close>

text \<open>Python's \<open>needle in haystack\<close> on strings.\<close>

fun contains :: "string \<Rightarrow> string \<Rightarrow> bool" where
  "contains w [] = (w = [])"
| "contains w (c # cs) = (prefix w (c # cs) \<or> contains w cs)"

text \<open>The test of line 290.\<close>

definition title_excluded :: "python \<Rightarrow> string list \<Rightarrow> string \<Rightarrow> bool" where
  "title_excluded py words title_text = list_ex (\<lambda>word. contains (py_lower py word) (py_lower py title_text)) words"

definition facebook :: string where
  "facebook = ''https://www.facebook.com''"

definition deal_message_of :: "classification \<Rightarrow> string" where
  "deal_message_of result =
     (if is_good_deal result then check_mark @ '' Good Deal @ ''
      else if near_good_deal result then warning_sign @ '' Near Good Deal @ ''
      else [])"

definition partial_text_of :: "string \<Rightarrow> string \<Rightarrow> string \<Rightarrow> string" where
  "partial_text_of deal_message price link =
     deal_message @ ''For '' @ price @ newline @ ''Link: '' @ facebook @ link"

text \<open>
  \<open>partial_sent_map\<close>: chat id to (message id, deal message, fixed latitude, fixed
  longitude), a dictionary in insertion order.
\<close>

type_synonym sent_map = "(int \<times> (int \<times> string \<times> real \<times> real)) list"

text \<open>
  The body of \<open>for user in user_data[pair]\<close> (lines 283 to 341). An exception of the
  classifier leaves the loop; an exception of \<open>send_message\<close> is caught and logged.
\<close>

definition notify_user ::
  "python \<Rightarrow> env \<Rightarrow> string \<Rightarrow> string \<Rightarrow> string \<Rightarrow> subscriber \<Rightarrow> sent_map \<times> event list \<Rightarrow>
   error option \<times> sent_map \<times> event list"
where
  "notify_user py env title_text price link u ps =
     (case ps of (partial_sent_map, tr) \<Rightarrow>
        let chat_id = sub_chat_id u;
            fixed_lat = sub_fixed_lat u;
            fixed_lon = sub_fixed_lon u;
            modes = sub_modes u
        in if title_excluded py (sub_excluded_words u) title_text
           then (None, partial_sent_map, tr @ [Log_skip chat_id Excluded_word])
           else
             (case product_checker env tr chat_id title_text price of
                Inl e \<Rightarrow> (Some e, partial_sent_map, tr @ [Product_check chat_id title_text price])
              | Inr result \<Rightarrow>
                  let tr1 = tr @ [Product_check chat_id title_text price] in
                  if mode_only_preferred modes \<noteq> 0 \<and> preferred result \<noteq> Some 1
                  then (None, partial_sent_map, tr1 @ [Log_skip chat_id Not_preferred])
                  else if near_good_deals modes \<noteq> 0 \<and>
                          \<not> (is_good_deal result \<or> near_good_deal result)
                  then (None, partial_sent_map, tr1 @ [Log_skip chat_id Neither_good_nor_near])
                  else if good_deals modes \<noteq> 0 \<and> \<not> is_good_deal result
                  then (None, partial_sent_map, tr1 @ [Log_skip chat_id Not_good_deal])
                  else
                    let deal_message = deal_message_of result;
                        partial_text = partial_text_of deal_message price link
                    in (case send_message env partial_text chat_id tr1 of
                          (Inr (Some sent_msg), tr2) \<Rightarrow>
                            (None,
                             AList.update chat_id
                               (message_id sent_msg, deal_message, fixed_lat, fixed_lon)
                               partial_sent_map,
                             tr2)
                        | (Inr None, tr2) \<Rightarrow> (None, partial_sent_map, tr2)
                        | (Inl e, tr2) \<Rightarrow> (None, partial_sent_map, tr2))))"

fun notify_users ::
  "python \<Rightarrow> env \<Rightarrow> string \<Rightarrow> string \<Rightarrow> string \<Rightarrow> subscriber list \<Rightarrow> sent_map \<times> event list \<Rightarrow>
   error option \<times> sent_map \<times> event list"
where
  "notify_users py env title_text price link [] ps = (None, ps)"
| "notify_users py env title_text price link (u # rest) ps =
     (case notify_user py env title_text price link u ps of
        (Some e, ps1) \<Rightarrow> (Some e, ps1)
      | (None, ps1) \<Rightarrow> notify_users py env title_text price link rest ps1)"

text \<open>
  The body of the loop over \<open>partial_sent_map.items()\<close> (lines 408 to 442): the edit
  with the address and the distance, and at any exception one more edit with the reduced
  text, whose own exception is caught.
\<close>

definition update_entry ::
  "env \<Rightarrow> string \<Rightarrow> real option \<Rightarrow> real option \<Rightarrow> string \<Rightarrow> string \<Rightarrow>
   int \<times> (int \<times> string \<times> real \<times> real) \<Rightarrow> event list \<Rightarrow> event list"
where
  "update_entry env address latitude longitude price link entry tr =
     (case entry of (chat_id, msg_id, user_deal_message, fixed_lat, fixed_lon) \<Rightarrow>
        let tail_text = '' For '' @ price @ newline @ ''Link: '' @ facebook @ link;
            fallback_text =
              user_deal_message @ ''Location update failed. For '' @ price @ newline @
              ''Link: '' @ facebook @ link;
            fallback = (\<lambda>tr'. snd (edit_message env chat_id msg_id fallback_text tr'))
        in case (case latitude of
                   None \<Rightarrow> Inr (user_deal_message @ address @ '' (Distance unknown)'' @ tail_text)
                 | Some lat \<Rightarrow>
                     (case longitude of
                        None \<Rightarrow>
                          Inr (user_deal_message @ address @ '' (Distance unknown)'' @ tail_text)
                      | Some lon \<Rightarrow>
                          (case calculate_distance env tr fixed_lat fixed_lon lat lon of
                             Inl e \<Rightarrow> Inl e
                           | Inr distance \<Rightarrow>
                               Inr (user_deal_message @ address @ '' ('' @ distance @ '')'' @
                                    tail_text)))) of
             Inl e \<Rightarrow> fallback tr
           | Inr updated_text \<Rightarrow>
               (case edit_message env chat_id msg_id updated_text tr of
                  (Inl e, tr1) \<Rightarrow> fallback tr1
                | (Inr result, tr1) \<Rightarrow> tr1))"

fun update_entries ::
  "env \<Rightarrow> string \<Rightarrow> real option \<Rightarrow> real option \<Rightarrow> string \<Rightarrow> string \<Rightarrow> sent_map \<Rightarrow>
   event list \<Rightarrow> event list"
where
  "update_entries env address latitude longitude price link [] tr = tr"
| "update_entries env address latitude longitude price link (entry # rest) tr =
     update_entries env address latitude longitude price link rest
       (update_entry env address latitude longitude price link entry tr)"

text \<open>
  The body of \<open>for listing in listings\<close> (lines 257 to 442). A tag object is always
  true, so the test of line 261 is that the three tags were found.
\<close>

definition process_listing ::
  "python \<Rightarrow> env \<Rightarrow> string \<times> string \<Rightarrow> ((string \<times> string) \<times> subscriber list) list \<Rightarrow> raw_listing \<Rightarrow>
   state \<Rightarrow> error option \<times> state"
where
  "process_listing py env pair user_data listing st =
     (case link_element listing of
        None \<Rightarrow> (None, st)
      | Some href \<Rightarrow>
     (case price_element listing of
        None \<Rightarrow> (None, st)
      | Some price \<Rightarrow>
     (case title_element listing of
        None \<Rightarrow> (None, st)
      | Some title_text \<Rightarrow>
     (case href of
        None \<Rightarrow> (None, st)
      | Some link \<Rightarrow>
          if link = [] then (None, st)
          else
            (case first_run st pair of
               None \<Rightarrow> (Some KeyError, st)
             | Some fr \<Rightarrow>
                 if fr then (None, st\<lparr>seen_listings := insert link (seen_listings st)\<rparr>)
                 else if link \<in> seen_listings st then (None, st)
                 else
                   let st1 = st\<lparr>seen_listings := insert link (seen_listings st)\<rparr> in
                   (case notify_users py env title_text price link (lookup_list user_data pair)
                           ([], trace st1) of
                      (Some e, partial_sent_map, tr) \<Rightarrow> (Some e, st1\<lparr>trace := tr\<rparr>)
                    | (None, partial_sent_map, tr) \<Rightarrow>
                        if partial_sent_map = [] then (None, st1\<lparr>trace := tr\<rparr>)
                        else
                          (case detail_view env tr link of
                             Inl e \<Rightarrow> (Some e, st1\<lparr>trace := tr @ [Open_detail link]\<rparr>)
                           | Inr (address, latitude, longitude) \<Rightarrow>
                               (None,
                                st1\<lparr>trace :=
                                      update_entries env address latitude longitude price link
                                        partial_sent_map (tr @ [Open_detail link])\<rparr>))))))))"

fun process_listings ::
  "python \<Rightarrow> env \<Rightarrow> string \<times> string \<Rightarrow> ((string \<times> string) \<times> subscriber list) list \<Rightarrow> raw_listing list \<Rightarrow>
   state \<Rightarrow> error option \<times> state"
where
  "process_listings py env pair user_data [] st = (None, st)"
| "process_listings py env pair user_data (listing # rest) st =
     (case process_listing py env pair user_data listing st of
        (Some e, st1) \<Rightarrow> (Some e, st1)
      | (None, st1) \<Rightarrow> process_listings py env pair user_data rest st1)"

text \<open>
  Lines 224 to 227, and again lines 232 to 235: when the recorded status of the location
  differs from the computed one, notify, record the new schedule and save.
\<close>

definition status_transition ::
  "python \<Rightarrow> env \<Rightarrow> clock \<Rightarrow> string \<Rightarrow> bool \<Rightarrow> string \<Rightarrow> datetime \<Rightarrow> state \<Rightarrow> error option \<times> state"
where
  "status_transition py env clk location active reason next_change_time st =
     (case LOCATION_STATUS st (py_lower py location) of
        None \<Rightarrow> (None, st)
      | Some s \<Rightarrow>
          if is_active s \<noteq> active then
            (case notify_status_change py env (py_lower py location) active reason
                    (Some next_change_time) st of
               (Some e, st1) \<Rightarrow> (Some e, st1)
             | (None, st1) \<Rightarrow>
                 (case get_monitoring_schedule py clk location of
                    Inl e \<Rightarrow> (Some e, st1)
                  | Inr s' \<Rightarrow>
                      (None,
                       st1\<lparr>LOCATION_STATUS :=
                             (LOCATION_STATUS st1)(py_lower py location \<mapsto> s'),
                           trace := trace st1 @ [Save_status]\<rparr>)))
          else (None, st))"

text \<open>
  The exceptions raised before the \<open>try\<close> leave the function; those of the \<open>try\<close>
  block are caught and logged, and \<open>first_run[pair]\<close> is then not cleared. The browser
  is taken to start and to quit without an exception.
\<close>

definition check_marketplace_pair ::
  "python \<Rightarrow> env \<Rightarrow> clock \<Rightarrow> string \<times> string \<Rightarrow> ((string \<times> string) \<times> subscriber list) list \<Rightarrow> state \<Rightarrow>
   error option \<times> state"
where
  "check_marketplace_pair py env clk pair user_data st =
     (case pair of (keyword, location) \<Rightarrow>
        (case is_monitoring_active py clk location of
           Inl e \<Rightarrow> (Some e, st)
         | Inr (active, reason, next_change_time) \<Rightarrow>
             if \<not> active
             then status_transition py env clk location active reason next_change_time st
             else
               (case status_transition py env clk location active reason next_change_time st of
                  (Some e, st1) \<Rightarrow> (Some e, st1)
                | (None, st1) \<Rightarrow>
                    let st2 = st1\<lparr>trace := trace st1 @ [Fetch_listings keyword location]\<rparr> in
                    (case search_page env (trace st1) keyword location of
                       Inl e \<Rightarrow> (None, st2)
                     | Inr listings \<Rightarrow>
                         (case process_listings py env pair user_data listings st2 of
                            (Some e, st3) \<Rightarrow> (None, st3)
                          | (None, st3) \<Rightarrow>
                              (None, st3\<lparr>first_run := (first_run st3)(pair \<mapsto> False)\<rparr>))))))"

subsection \<open>check_and_update_schedules\<close>

type_synonym updates = "(string \<times> (bool \<times> string \<times> datetime)) list"

text \<open>The first loop (lines 455 to 463); \<open>location_updates\<close> is a dictionary.\<close>

fun collect_updates ::
  "python \<Rightarrow> clock \<Rightarrow> (string \<times> string) list \<Rightarrow> (string \<rightharpoonup> schedule) \<Rightarrow> updates \<Rightarrow> error + updates"
where
  "collect_updates py clk [] ls location_updates = Inr location_updates"
| "collect_updates py clk ((keyword, location) # rest) ls location_updates =
     (case is_monitoring_active py clk location of
        Inl e \<Rightarrow> Inl e
      | Inr (active, reason, next_change_time) \<Rightarrow>
          let location_key = py_lower py location in
          collect_updates py clk rest ls
            (case ls location_key of
               None \<Rightarrow> location_updates
             | Some s \<Rightarrow>
                 if is_active s \<noteq> active
                 then AList.update location_key (active, reason, next_change_time)
                        location_updates
                 else location_updates))"

text \<open>The second loop (lines 466 to 468).\<close>

fun apply_updates :: "python \<Rightarrow> env \<Rightarrow> clock \<Rightarrow> updates \<Rightarrow> state \<Rightarrow> error option \<times> state" where
  "apply_updates py env clk [] st = (None, st)"
| "apply_updates py env clk ((location, active, reason, next_change_time) # rest) st =
     (case notify_status_change py env location active reason (Some next_change_time) st of
        (Some e, st1) \<Rightarrow> (Some e, st1)
      | (None, st1) \<Rightarrow>
          (case get_monitoring_schedule py clk location of
             Inl e \<Rightarrow> (Some e, st1)
           | Inr s \<Rightarrow>
               apply_updates py env clk rest
                 (st1\<lparr>LOCATION_STATUS := (LOCATION_STATUS st1)(location \<mapsto> s)\<rparr>)))"

text \<open>The parameters \<open>users\<close> and \<open>user_pair_map\<close> of the source are not used by it.\<close>

definition check_and_update_schedules ::
  "python \<Rightarrow> env \<Rightarrow> clock \<Rightarrow> (string \<times> string) list \<Rightarrow> state \<Rightarrow> error option \<times> state"
where
  "check_and_update_schedules py env clk full_pairs st =
     (case collect_updates py clk full_pairs (LOCATION_STATUS st) [] of
        Inl e \<Rightarrow> (Some e, st)
      | Inr location_updates \<Rightarrow>
          (case apply_updates py env clk location_updates st of
             (Some e, st1) \<Rightarrow> (Some e, st1)
           | (None, st1) \<Rightarrow>
               if location_updates \<noteq> []
               then (None, st1\<lparr>trace := trace st1 @ [Save_status]\<rparr>)
               else (None, st1)))"

subsection \<open>One round of monitor_all_pairs_together\<close>

text \<open>
  \<open>asyncio.gather\<close> over one \<open>check_marketplace_pair\<close> per active pair: the tasks run
  here one after the other, in the order of the list, and the first exception in that
  order is the one raised.
\<close>

fun gather_pairs ::
  "python \<Rightarrow> env \<Rightarrow> clock \<Rightarrow> (string \<times> string) list \<Rightarrow> ((string \<times> string) \<times> subscriber list) list \<Rightarrow>
   state \<Rightarrow> error option \<times> state"
where
  "gather_pairs py env clk [] user_data st = (None, st)"
| "gather_pairs py env clk (pair # rest) user_data st =
     (case check_marketplace_pair py env clk pair user_data st of
        (r, st1) \<Rightarrow>
          (case gather_pairs py env clk rest user_data st1 of
             (e, st2) \<Rightarrow> ((case r of Some e1 \<Rightarrow> Some e1 | None \<Rightarrow> e), st2)))"

text \<open>
  The body of \<open>while True\<close> (lines 508 to 528), up to the sleep that ends the round; all
  readings of the clock within the round give the same time.
\<close>

definition monitor_round ::
  "python \<Rightarrow> env \<Rightarrow> clock \<Rightarrow> datetime \<Rightarrow> user list \<Rightarrow> (string \<times> string) list \<Rightarrow> state \<Rightarrow>
   error option \<times> state"
where
  "monitor_round py env clk sysnow users full_pairs st =
     (case generate_pairs_and_log py clk sysnow users st of
        (Inl e, st1) \<Rightarrow> (Some e, st1)
      | (Inr (act_pairs, upm), st1) \<Rightarrow>
          (case check_and_update_schedules py env clk full_pairs st1 of
             (Some e, st2) \<Rightarrow> (Some e, st2)
           | (None, st2) \<Rightarrow>
               if act_pairs \<noteq> [] then gather_pairs py env clk act_pairs upm st2
               else (None, st2)))"

section \<open>Observations and sample inputs\<close>

text \<open>
  A sample interpreter, for the concrete inputs below: the three library functions as
  they act on ASCII strings. \<open>ascii_lower\<close> and \<open>ascii_title\<close> change the letters
  A to Z and a to z only. \<open>ascii_strptime\<close> matches the whole string against
  \<open>\d\d\d\d-(1[0-2]|0[1-9]|[1-9])-(3[01]|[12]\d|0[1-9]|[1-9]| [1-9])\<close> with the digits
  0 to 9 and raises ValueError when it does not match or the date does not exist. All
  the strings of the sample inputs are ASCII.
\<close>

definition upper_letters :: string where
  "upper_letters = ''ABCDEFGHIJKLMNOPQRSTUVWXYZ''"

definition lower_letters :: string where
  "lower_letters = ''abcdefghijklmnopqrstuvwxyz''"

definition char_lower :: "char \<Rightarrow> char" where
  "char_lower c = (case map_of (zip upper_letters lower_letters) c of None \<Rightarrow> c | Some l \<Rightarrow> l)"

definition char_upper :: "char \<Rightarrow> char" where
  "char_upper c = (case map_of (zip lower_letters upper_letters) c of None \<Rightarrow> c | Some l \<Rightarrow> l)"

definition is_cased :: "char \<Rightarrow> bool" where
  "is_cased c = (c \<in> set upper_letters \<or> c \<in> set lower_letters)"

definition ascii_lower :: "string \<Rightarrow> string" where
  "ascii_lower s = map char_lower s"

text \<open>A letter after a letter is lowered, any other letter is raised.\<close>

fun title_from :: "bool \<Rightarrow> string \<Rightarrow> string" where
  "title_from prev [] = []"
| "title_from prev (c # cs) =
     (if prev then char_lower c else char_upper c) # title_from (is_cased c) cs"

definition ascii_title :: "string \<Rightarrow> string" where
  "ascii_title s = title_from False s"

definition is_digit :: "char \<Rightarrow> bool" where
  "is_digit c = (c \<in> set ''0123456789'')"

definition digit_val :: "char \<Rightarrow> nat" where
  "digit_val c = of_char c - 48"

definition nat_of_digits :: "string \<Rightarrow> nat" where
  "nat_of_digits s = foldl (\<lambda>a c. 10 * a + digit_val c) 0 s"

fun split_on :: "char \<Rightarrow> string \<Rightarrow> string list" where
  "split_on d [] = [[]]"
| "split_on d (c # cs) =
     (if c = d then [] # split_on d cs
      else (case split_on d cs of [] \<Rightarrow> [[c]] | w # ws \<Rightarrow> (c # w) # ws))"

definition year_field :: "string \<Rightarrow> nat option" where
  "year_field s =
     (if length s = 4 \<and> list_all is_digit s then Some (nat_of_digits s) else None)"

definition month_field :: "string \<Rightarrow> nat option" where
  "month_field s =
     (if (length s = 1 \<or> length s = 2) \<and> list_all is_digit s \<and>
         1 \<le> nat_of_digits s \<and> nat_of_digits s \<le> 12
      then Some (nat_of_digits s) else None)"

definition day_field :: "string \<Rightarrow> nat option" where
  "day_field s =
     (if (length s = 1 \<or> length s = 2) \<and> list_all is_digit s \<and>
         1 \<le> nat_of_digits s \<and> nat_of_digits s \<le> 31
      then Some (nat_of_digits s)
      else (case s of
              [a, b] \<Rightarrow>
                if a = CHR '' '' \<and> is_digit b \<and> 1 \<le> digit_val b then Some (digit_val b)
                else None
            | _ \<Rightarrow> None))"

definition ascii_strptime :: "string \<Rightarrow> error + date" where
  "ascii_strptime s =
     (case split_on CHR ''-'' s of
        [y, m, d] \<Rightarrow>
          (case year_field y of
             None \<Rightarrow> Inl ValueError
           | Some yy \<Rightarrow>
               (case month_field m of
                  None \<Rightarrow> Inl ValueError
                | Some mm \<Rightarrow>
                    (case day_field d of
                       None \<Rightarrow> Inl ValueError
                     | Some dd \<Rightarrow>
                         if 1 \<le> yy \<and> dd \<le> days_in_month yy mm then Inr (yy, mm, dd)
                         else Inl ValueError)))
      | _ \<Rightarrow> Inl ValueError)"

definition ascii_python :: python where
  "ascii_python =
     \<lparr>py_lower = ascii_lower, py_title = ascii_title, py_strptime = ascii_strptime\<rparr>"

text \<open>
  The subscriber configuration of a user in the words of the specification: chat id,
  excluded words, reference coordinate and mode mapping.
\<close>

definition subscriber_config :: "user \<Rightarrow> subscriber" where
  "subscriber_config u =
     \<lparr>sub_chat_id = user_id u, sub_excluded_words = user_excluded_words u,
      sub_fixed_lat = user_fixed_lat u, sub_fixed_lon = user_fixed_lon u,
      sub_modes = user_modes u\<rparr>"

text \<open>The number of calls of the bot transport in a piece of trace.\<close>

definition attempts_of :: "event list \<Rightarrow> nat" where
  "attempts_of tr =
     length (filter (\<lambda>e. case e of Bot_send c m \<Rightarrow> True | Bot_edit c i m \<Rightarrow> True | _ \<Rightarrow> False) tr)"

text \<open>A world in which every collaborator raises.\<close>

definition transport_down :: env where
  "transport_down =
     \<lparr>bot_send_message = (\<lambda>tr c m. Inl TelegramError),
      bot_edit_message_text = (\<lambda>tr c i m. Inl TelegramError),
      product_checker = (\<lambda>tr c t p. Inl OtherException),
      search_page = (\<lambda>tr k l. Inl OtherException),
      detail_view = (\<lambda>tr l. Inl OtherException),
      calculate_distance = (\<lambda>tr a b c d. Inl OtherException)\<rparr>"

text \<open>A world in which the first call of the transport fails and the later ones succeed.\<close>

definition transport_flaky :: env where
  "transport_flaky =
     \<lparr>bot_send_message = (\<lambda>tr c m. if tr = [] then Inl TelegramError else Inr (Message 42)),
      bot_edit_message_text = (\<lambda>tr c i m. if tr = [] then Inl TelegramError else Inr ()),
      product_checker = (\<lambda>tr c t p. Inl OtherException),
      search_page = (\<lambda>tr k l. Inl OtherException),
      detail_view = (\<lambda>tr l. Inl OtherException),
      calculate_distance = (\<lambda>tr a b c d. Inl OtherException)\<rparr>"


text \<open>
  The mode filter in the words of the specification: the three modes in their fixed
  order, each with the condition it requires of the classification and the reason logged
  when the condition is unmet; the first active mode whose condition is unmet; and the
  statement that every active mode's condition holds.
\<close>

definition mode_filters ::
  "((mode_flags \<Rightarrow> int) \<times> (classification \<Rightarrow> bool) \<times> skip_reason) list"
where
  "mode_filters =
     [(mode_only_preferred, (\<lambda>r. preferred r = Some 1), Not_preferred),
      (near_good_deals, (\<lambda>r. is_good_deal r \<or> near_good_deal r), Neither_good_nor_near),
      (good_deals, (\<lambda>r. is_good_deal r), Not_good_deal)]"

definition first_unmet :: "mode_flags \<Rightarrow> classification \<Rightarrow> skip_reason option" where
  "first_unmet m r =
     map_option (\<lambda>f. snd (snd f))
       (find (\<lambda>f. fst f m \<noteq> 0 \<and> \<not> fst (snd f) r) mode_filters)"

definition modes_ok :: "mode_flags \<Rightarrow> classification \<Rightarrow> bool" where
  "modes_ok m r = list_all (\<lambda>f. fst f m = 0 \<or> fst (snd f) r) mode_filters"

text \<open>
  A world in which every collaborator answers: the transport accepts every call, the
  classifier calls everything a preferred good deal, the search page lists two items, and
  the detail view shows no map.
\<close>

definition world_ok :: env where
  "world_ok =
     \<lparr>bot_send_message = (\<lambda>tr c m. Inr (Message 100)),
      bot_edit_message_text = (\<lambda>tr c i m. Inr ()),
      product_checker =
        (\<lambda>tr c t p. Inr \<lparr>product_name = ''bike'', preferred = Some 1, is_good_deal = True,
                           near_good_deal = False\<rparr>),
      search_page =
        (\<lambda>tr k l. Inr [\<lparr>link_element = Some (Some ''/item/1''), price_element = Some ''$500'',
                           title_element = Some ''BROKEN bike''\<rparr>,
                         \<lparr>link_element = Some (Some ''/item/2''), price_element = Some ''$300'',
                           title_element = Some ''Road bike''\<rparr>]),
      detail_view = (\<lambda>tr l. Inr (''Unknown Address'', None, None)),
      calculate_distance = (\<lambda>tr a b c d. Inr ''5 km'')\<rparr>"

text \<open>The same world with a classifier that finds nothing of interest.\<close>

definition world_dull :: env where
  "world_dull =
     world_ok\<lparr>product_checker :=
        (\<lambda>tr c t p. Inr \<lparr>product_name = ''bike'', preferred = Some 0, is_good_deal = False,
                           near_good_deal = False\<rparr>)\<rparr>"

definition no_modes :: mode_flags where
  "no_modes = \<lparr>mode_only_preferred = 0, near_good_deals = 0, good_deals = 0\<rparr>"

text \<open>Two subscribers of the pair (bike, melbourne): the first excludes the word Broken.\<close>

definition alice :: subscriber where
  "alice =
     \<lparr>sub_chat_id = 1, sub_excluded_words = [''Broken''], sub_fixed_lat = 0, sub_fixed_lon = 0,
      sub_modes = no_modes\<lparr>good_deals := 1\<rparr>\<rparr>"

definition bob :: subscriber where
  "bob =
     \<lparr>sub_chat_id = 2, sub_excluded_words = [], sub_fixed_lat = 0, sub_fixed_lon = 0,
      sub_modes = no_modes\<rparr>"

definition bike_melbourne :: "string \<times> string" where
  "bike_melbourne = (''bike'', ''melbourne'')"

definition bike_subscribers :: "((string \<times> string) \<times> subscriber list) list" where
  "bike_subscribers = [(bike_melbourne, [alice, bob])]"

definition broken_bike :: raw_listing where
  "broken_bike =
     \<lparr>link_element = Some (Some ''/item/1''), price_element = Some ''$500'',
      title_element = Some ''BROKEN bike''\<rparr>"

definition road_bike :: raw_listing where
  "road_bike =
     \<lparr>link_element = Some (Some ''/item/2''), price_element = Some ''$300'',
      title_element = Some ''Road bike''\<rparr>"

text \<open>The state of a process that has polled nothing yet, and the state after a first poll.\<close>

definition fresh :: state where
  "fresh =
     \<lparr>LOCATION_STATUS = Map.empty, LOCATION_USERS = Map.empty, seen_listings = {},
      first_run = [bike_melbourne \<mapsto> True], trace = []\<rparr>"

definition polled :: state where
  "polled = fresh\<lparr>first_run := [bike_melbourne \<mapsto> False]\<rparr>"

text \<open>
  The link of a well-formed listing record: the three tags are present and the link tag
  has a non-empty \<open>href\<close>.
\<close>

definition listing_link :: "raw_listing \<Rightarrow> string option" where
  "listing_link listing =
     (case link_element listing of
        Some (Some link) \<Rightarrow>
          if price_element listing \<noteq> None \<and> title_element listing \<noteq> None \<and> link \<noteq> []
          then Some link else None
      | _ \<Rightarrow> None)"

definition links_of :: "raw_listing list \<Rightarrow> string set" where
  "links_of listings = set (List.map_filter listing_link listings)"

text \<open>The world \<open>env\<close> with every record of the given link removed from its search pages.\<close>

definition hide_link :: "string \<Rightarrow> env \<Rightarrow> env" where
  "hide_link link env =
     env\<lparr>search_page :=
           (\<lambda>tr keyword location.
              case search_page env tr keyword location of
                Inl e \<Rightarrow> Inl e
              | Inr listings \<Rightarrow>
                  Inr (filter (\<lambda>listing. listing_link listing \<noteq> Some link) listings))\<rparr>"

text \<open>
  Successive polls of one pair, one per reading of the clock, as the rounds of
  \<open>monitor_all_pairs_together\<close> make them; an exception ends them.
\<close>

fun polls ::
  "python \<Rightarrow> env \<Rightarrow> clock list \<Rightarrow> string \<times> string \<Rightarrow> ((string \<times> string) \<times> subscriber list) list \<Rightarrow> state \<Rightarrow>
   error option \<times> state"
where
  "polls py env [] pair user_data st = (None, st)"
| "polls py env (clk # clks) pair user_data st =
     (case check_marketplace_pair py env clk pair user_data st of
        (Some e, st1) \<Rightarrow> (Some e, st1)
      | (None, st1) \<Rightarrow> polls py env clks pair user_data st1)"

text \<open>
  Noon and eleven at night on 15 January 2024, and eleven at night on 31 January 2024,
  in every zone.
\<close>

definition noon :: clock where
  "noon = (\<lambda>tz. \<lparr>year = 2024, month = 1, day = 15, hour = 12, minute = 0, second = 0,
                 microsecond = 0\<rparr>)"

definition month_end_night :: clock where
  "month_end_night =
     (\<lambda>tz. \<lparr>year = 2024, month = 1, day = 31, hour = 23, minute = 0, second = 0,
            microsecond = 0\<rparr>)"

definition night :: clock where
  "night = (\<lambda>tz. \<lparr>year = 2024, month = 1, day = 15, hour = 23, minute = 0, second = 0,
                  microsecond = 0\<rparr>)"

text \<open>
  The subscription compiler in the words of the specification: a user contributes when
  the activation flag is set and the expiry date is not before today.
\<close>

definition eligible :: "python \<Rightarrow> date \<Rightarrow> user \<Rightarrow> bool" where
  "eligible py today u =
     (case py_strptime py (case expiry_date u of None \<Rightarrow> ''1970-01-01'' | Some d \<Rightarrow> d) of
        Inl e \<Rightarrow> False
      | Inr d \<Rightarrow>
          (case activation_status u of None \<Rightarrow> False | Some a \<Rightarrow> a \<noteq> 0) \<and>
          \<not> date_less d today)"

definition well_formed_expiry :: "python \<Rightarrow> user \<Rightarrow> bool" where
  "well_formed_expiry py u =
     (case py_strptime py (case expiry_date u of None \<Rightarrow> ''1970-01-01'' | Some d \<Rightarrow> d) of
        Inl e \<Rightarrow> False
      | Inr d \<Rightarrow> True)"

text \<open>
  Four users in Melbourne: one with a keyword, one whose subscription has expired, one
  whose expiry date is not a date, and one with no keyword at all.
\<close>

definition carol :: user where
  "carol =
     \<lparr>user_id = 3, activation_status = Some 1, expiry_date = Some ''2030-01-01'',
      user_keywords = [''bike''], user_location = ''melbourne'', user_excluded_words = [],
      user_fixed_lat = 0, user_fixed_lon = 0, user_modes = no_modes\<rparr>"

definition dave :: user where
  "dave = carol\<lparr>user_id := 4, expiry_date := Some ''2024-01-14''\<rparr>"

definition mallory :: user where
  "mallory = carol\<lparr>user_id := 6, expiry_date := Some ''next year''\<rparr>"

definition erin :: user where
  "erin = carol\<lparr>user_id := 5, user_keywords := [], user_location := ''Melbourne''\<rparr>"

text \<open>The schedule recorded for Melbourne at noon, and a state that holds it.\<close>

definition day_schedule :: schedule where
  "day_schedule =
     \<lparr>sched_location = ''melbourne'', sched_timezone = ''Australia/Melbourne'',
      local_time = ''2024-01-15 12:00:00'', is_active = True,
      next_change = ''2024-01-15 22:00:00'', next_status = ''inactive'',
      active_hours = ''06:30 - 22:00''\<rparr>"

definition daytime :: state where
  "daytime =
     \<lparr>LOCATION_STATUS = [''melbourne'' \<mapsto> day_schedule],
      LOCATION_USERS = [''melbourne'' \<mapsto> [3]], seen_listings = {},
      first_run = [bike_melbourne \<mapsto> False], trace = []\<rparr>"

text \<open>The pairs a user subscribes to, and the user ids recorded for a location key.\<close>

definition subscribes :: "user \<Rightarrow> string \<times> string \<Rightarrow> bool" where
  "subscribes u p = (fst p \<in> set (user_keywords u) \<and> snd p = user_location u)"

definition ids_of :: "state \<Rightarrow> string \<Rightarrow> int set" where
  "ids_of st key = (case LOCATION_USERS st key of None \<Rightarrow> {} | Some l \<Rightarrow> set l)"

text \<open>A result of the user loop with the location-to-users index blanked out.\<close>

definition forget_users ::
  "error option \<times> compiled \<times> state \<Rightarrow> error option \<times> compiled \<times> state"
where
  "forget_users x = (case x of (r, acc, st) \<Rightarrow> (r, acc, st\<lparr>LOCATION_USERS := Map.empty\<rparr>))"

section \<open>The schedule engine\<close>

lemmas schedule_defs =
  is_monitoring_active_def get_monitoring_schedule_def Let_def time_of_def
  in_inactive_period_def time_le_def time_less_def start_inactive_def end_inactive_def
  mk_time_def replace_hms_def replace_day_def

lemmas char_defs =
  char_lower_def char_upper_def is_cased_def upper_letters_def lower_letters_def

lemmas format_defs = strftime_HM_def strftime_full_def fmt2_def fmt4_def digit_def

text \<open>
  Whenever \<open>is_monitoring_active\<close> returns, its flag is the negation of the test of
  line 38.
\<close>

lemma is_monitoring_active_flag:
  "is_monitoring_active py clk location = Inr (a, r, n) \<Longrightarrow>
   a = (\<not> in_inactive_period (time_of (clk (get_location_timezone py location))))"
  by (auto simp: is_monitoring_active_def Let_def replace_hms_def split: if_splits sum.splits)

text \<open>
  On a datetime the clock can give, both functions return unless it is 22:00 or later on
  the last day of a month.
\<close>

lemma is_monitoring_active_returns_iff:
  assumes "valid_datetime (clk (get_location_timezone py location))"
  shows "(\<exists>r. is_monitoring_active py clk location = Inr r) \<longleftrightarrow>
         \<not> (22 \<le> hour (clk (get_location_timezone py location)) \<and>
            day (clk (get_location_timezone py location)) =
              days_in_month (year (clk (get_location_timezone py location)))
                (month (clk (get_location_timezone py location))))"
  using assms
  by (auto simp: schedule_defs valid_datetime_def split: if_splits)

lemma get_monitoring_schedule_returns_iff:
  assumes "valid_datetime (clk (get_location_timezone py location))"
  shows "(\<exists>r. get_monitoring_schedule py clk location = Inr r) \<longleftrightarrow>
         \<not> (22 \<le> hour (clk (get_location_timezone py location)) \<and>
            day (clk (get_location_timezone py location)) =
              days_in_month (year (clk (get_location_timezone py location)))
                (month (clk (get_location_timezone py location))))"
  using assms
  by (auto simp: schedule_defs valid_datetime_def split: if_splits)

text \<open>
  C2 (the code departs from the claim). The claim: for every location and every current
  time \<open>is_monitoring_active\<close> and \<open>get_monitoring_schedule\<close> return normally, also on
  the last day of a month. The code: from 22:00 on, "tomorrow" is computed as
  \<open>replace(day=now.day + 1)\<close>, which on the last day of a month asks for a day the month
  does not have. In Melbourne at 23:00 on 31 January 2024 both functions raise ValueError.
\<close>

theorem month_end_night_raises:
  "is_monitoring_active py
     (\<lambda>tz. \<lparr>year = 2024, month = 1, day = 31, hour = 23, minute = 0, second = 0,
            microsecond = 0\<rparr>) ''melbourne'' = Inl ValueError \<and>
   get_monitoring_schedule py
     (\<lambda>tz. \<lparr>year = 2024, month = 1, day = 31, hour = 23, minute = 0, second = 0,
            microsecond = 0\<rparr>) ''melbourne'' = Inl ValueError"
  by (simp add: schedule_defs days_in_month_def)

text \<open>
  C3 as the claim states it fails: at 06:30:00 sharp the test \<open>current_time <= end_inactive\<close>
  holds, so monitoring is inactive.
\<close>

theorem end_boundary_is_inactive:
  "is_monitoring_active ascii_python
     (\<lambda>tz. \<lparr>year = 2024, month = 1, day = 15, hour = 6, minute = 30, second = 0,
            microsecond = 0\<rparr>) ''melbourne'' =
   Inr (False, ''Nighttime hours in melbourne (local time: 06:30). Resuming at 06:30'',
        \<lparr>year = 2024, month = 1, day = 15, hour = 6, minute = 30, second = 0,
         microsecond = 0\<rparr>)"
  by (simp add: schedule_defs night_reason_def format_defs get_location_timezone_def)

text \<open>
  C3, amended. For every location, with \<open>now\<close> the local time of its zone:
  at 12:00 \<open>is_monitoring_active\<close> reports active; at 06:00 inactive; at 06:30:00 sharp
  inactive (the end boundary belongs to the inactive period), and at any later instant of
  the minute 06:30 active; at 23:00 inactive, on every day but the last of its month.
\<close>

theorem activity_at_sample_times:
  "(let now = clk (get_location_timezone py location);
        r = is_monitoring_active py clk location
    in (hour now = 12 \<and> minute now = 0 \<longrightarrow> (\<exists>reason nxt. r = Inr (True, reason, nxt))) \<and>
       (hour now = 6 \<and> minute now = 0 \<longrightarrow> (\<exists>reason nxt. r = Inr (False, reason, nxt))) \<and>
       (hour now = 6 \<and> minute now = 30 \<and> second now = 0 \<and> microsecond now = 0 \<longrightarrow>
          (\<exists>reason nxt. r = Inr (False, reason, nxt))) \<and>
       (hour now = 6 \<and> minute now = 30 \<and> (0 < second now \<or> 0 < microsecond now) \<longrightarrow>
          (\<exists>reason nxt. r = Inr (True, reason, nxt))) \<and>
       (hour now = 23 \<and> minute now = 0 \<and> day now < days_in_month (year now) (month now) \<longrightarrow>
          (\<exists>reason nxt. r = Inr (False, reason, nxt))))"
  by (auto simp: schedule_defs)

theorem activity_at_sample_times_witness:
  "(\<exists>reason nxt.
      is_monitoring_active ascii_python
        (\<lambda>tz. \<lparr>year = 2024, month = 1, day = 15, hour = 12, minute = 0, second = 0,
               microsecond = 0\<rparr>) ''melbourne'' = Inr (True, reason, nxt)) \<and>
   (\<exists>reason nxt.
      is_monitoring_active ascii_python
        (\<lambda>tz. \<lparr>year = 2024, month = 1, day = 15, hour = 6, minute = 0, second = 0,
               microsecond = 0\<rparr>) ''melbourne'' = Inr (False, reason, nxt)) \<and>
   (\<exists>reason nxt.
      is_monitoring_active ascii_python
        (\<lambda>tz. \<lparr>year = 2024, month = 1, day = 15, hour = 6, minute = 30, second = 0,
               microsecond = 0\<rparr>) ''melbourne'' = Inr (False, reason, nxt)) \<and>
   (\<exists>reason nxt.
      is_monitoring_active ascii_python
        (\<lambda>tz. \<lparr>year = 2024, month = 1, day = 15, hour = 6, minute = 30, second = 1,
               microsecond = 0\<rparr>) ''melbourne'' = Inr (True, reason, nxt)) \<and>
   (\<exists>reason nxt.
      is_monitoring_active ascii_python
        (\<lambda>tz. \<lparr>year = 2024, month = 1, day = 15, hour = 23, minute = 0, second = 0,
               microsecond = 0\<rparr>) ''melbourne'' = Inr (False, reason, nxt))"
  using
    activity_at_sample_times
      [where py = ascii_python and location = "''melbourne''" and clk =
         "\<lambda>tz. \<lparr>year = 2024, month = 1, day = 15, hour = 12, minute = 0, second = 0,
                 microsecond = 0\<rparr>"]
    activity_at_sample_times
      [where py = ascii_python and location = "''melbourne''" and clk =
         "\<lambda>tz. \<lparr>year = 2024, month = 1, day = 15, hour = 6, minute = 0, second = 0,
                 microsecond = 0\<rparr>"]
    activity_at_sample_times
      [where py = ascii_python and location = "''melbourne''" and clk =
         "\<lambda>tz. \<lparr>year = 2024, month = 1, day = 15, hour = 6, minute = 30, second = 0,
                 microsecond = 0\<rparr>"]
    activity_at_sample_times
      [where py = ascii_python and location = "''melbourne''" and clk =
         "\<lambda>tz. \<lparr>year = 2024, month = 1, day = 15, hour = 6, minute = 30, second = 1,
                 microsecond = 0\<rparr>"]
    activity_at_sample_times
      [where py = ascii_python and location = "''melbourne''" and clk =
         "\<lambda>tz. \<lparr>year = 2024, month = 1, day = 15, hour = 23, minute = 0, second = 0,
                 microsecond = 0\<rparr>"]
  by (simp add: Let_def days_in_month_def)

section \<open>The messaging functions\<close>

lemma upt3: "[0..<3] = [0, 1, 2]"
  by (simp add: numeral_3_eq_3)

text \<open>
  C9 as the claim states it fails: when all three attempts fail, the sleeps are 2 and 4
  seconds; no sleep follows the third attempt, so 8 seconds never occur.
\<close>

theorem no_eight_second_sleep:
  "send_message transport_down ''hi'' 7 [] =
     (Inr None, [Bot_send 7 ''hi'', Sleep 2, Bot_send 7 ''hi'', Sleep 4, Bot_send 7 ''hi'']) \<and>
   edit_message transport_down 7 1 ''hi'' [] =
     (Inr False, [Bot_edit 7 1 ''hi'', Sleep 2, Bot_edit 7 1 ''hi'', Sleep 4, Bot_edit 7 1 ''hi''])"
  by (simp add: send_message_def edit_message_def transport_down_def upt3)

lemma send_message_unfold:
  "send_message env message chat_id tr =
     send_message_loop env message chat_id [0, 1, 2] tr"
  by (simp add: send_message_def upt3)

lemma edit_message_unfold:
  "edit_message env chat_id msg_id new_text tr =
     edit_message_loop env chat_id msg_id new_text [0, 1, 2] tr"
  by (simp add: edit_message_def upt3)

lemma send_message_loop_trace:
  "\<exists>ext. snd (send_message_loop env message chat_id as tr) = tr @ ext \<and>
     attempts_of ext \<le> length as \<and>
     (\<forall>e \<in> set ext. e = Bot_send chat_id message \<or>
        (\<exists>a \<in> set as. a < 2 \<and> e = Sleep (2 ^ (a + 1))))"
proof (induction as arbitrary: tr)
  case Nil
  then show ?case by (simp add: attempts_of_def)
next
  case (Cons a as)
  let ?B = "Bot_send chat_id message"
  show ?case
  proof (cases "bot_send_message env tr chat_id message")
    case (Inr m)
    then show ?thesis by (simp add: attempts_of_def)
  next
    case (Inl e)
    show ?thesis
    proof (cases "e = TelegramError")
      case False
      with Inl show ?thesis by (simp add: attempts_of_def)
    next
      case True
      define pre where "pre = (if a < 2 then [?B, Sleep (2 ^ (a + 1))] else [?B])"
      have step: "send_message_loop env message chat_id (a # as) tr =
                  send_message_loop env message chat_id as (tr @ pre)"
        using Inl True by (simp add: pre_def)
      from Cons.IH [of "tr @ pre"]
      obtain ext where ext: "snd (send_message_loop env message chat_id as (tr @ pre)) =
             (tr @ pre) @ ext"
          "attempts_of ext \<le> length as"
          "\<forall>e \<in> set ext. e = ?B \<or> (\<exists>a \<in> set as. a < 2 \<and> e = Sleep (2 ^ (a + 1)))"
        by blast
      have "attempts_of (pre @ ext) \<le> length (a # as)"
        using ext(2) by (simp add: attempts_of_def pre_def)
      moreover have "\<forall>e \<in> set (pre @ ext). e = ?B \<or>
          (\<exists>a' \<in> set (a # as). a' < 2 \<and> e = Sleep (2 ^ (a' + 1)))"
        using ext(3) by (auto simp: pre_def)
      ultimately show ?thesis
        using step ext(1) by (intro exI [of _ "pre @ ext"]) simp
    qed
  qed
qed

lemma edit_message_loop_trace:
  "\<exists>ext. snd (edit_message_loop env chat_id msg_id new_text as tr) = tr @ ext \<and>
     attempts_of ext \<le> length as \<and>
     (\<forall>e \<in> set ext. e = Bot_edit chat_id msg_id new_text \<or>
        (\<exists>a \<in> set as. a < 2 \<and> e = Sleep (2 ^ (a + 1))))"
proof (induction as arbitrary: tr)
  case Nil
  then show ?case by (simp add: attempts_of_def)
next
  case (Cons a as)
  let ?E = "Bot_edit chat_id msg_id new_text"
  show ?case
  proof (cases "bot_edit_message_text env tr chat_id msg_id new_text")
    case (Inr m)
    then show ?thesis by (simp add: attempts_of_def)
  next
    case (Inl e)
    show ?thesis
    proof (cases "e = TelegramError")
      case False
      with Inl show ?thesis by (simp add: attempts_of_def)
    next
      case True
      define pre where "pre = (if a < 2 then [?E, Sleep (2 ^ (a + 1))] else [?E])"
      have step: "edit_message_loop env chat_id msg_id new_text (a # as) tr =
                  edit_message_loop env chat_id msg_id new_text as (tr @ pre)"
        using Inl True by (simp add: pre_def)
      from Cons.IH [of "tr @ pre"]
      obtain ext where ext: "snd (edit_message_loop env chat_id msg_id new_text as (tr @ pre)) =
             (tr @ pre) @ ext"
          "attempts_of ext \<le> length as"
          "\<forall>e \<in> set ext. e = ?E \<or> (\<exists>a \<in> set as. a < 2 \<and> e = Sleep (2 ^ (a + 1)))"
        by blast
      have "attempts_of (pre @ ext) \<le> length (a # as)"
        using ext(2) by (simp add: attempts_of_def pre_def)
      moreover have "\<forall>e \<in> set (pre @ ext). e = ?E \<or>
          (\<exists>a' \<in> set (a # as). a' < 2 \<and> e = Sleep (2 ^ (a' + 1)))"
        using ext(3) by (auto simp: pre_def)
      ultimately show ?thesis
        using step ext(1) by (intro exI [of _ "pre @ ext"]) simp
    qed
  qed
qed

lemma send_message_trace:
  "\<exists>ext. snd (send_message env message chat_id tr) = tr @ ext \<and> attempts_of ext \<le> 3 \<and>
     (\<forall>e \<in> set ext. e = Bot_send chat_id message \<or> e = Sleep 2 \<or> e = Sleep 4)"
proof -
  from send_message_loop_trace [of env message chat_id "[0, 1, 2]" tr]
  obtain ext where ext: "snd (send_message_loop env message chat_id [0, 1, 2] tr) = tr @ ext"
    "attempts_of ext \<le> length [0::nat, 1, 2]"
    "\<forall>e \<in> set ext. e = Bot_send chat_id message \<or>
       (\<exists>a \<in> set [0::nat, 1, 2]. a < 2 \<and> e = Sleep (2 ^ (a + 1)))"
    by blast
  from ext(3) have "\<forall>e \<in> set ext. e = Bot_send chat_id message \<or> e = Sleep 2 \<or> e = Sleep 4"
    by auto
  with ext(1,2) show ?thesis by (auto simp: send_message_unfold)
qed

lemma edit_message_trace:
  "\<exists>ext. snd (edit_message env chat_id msg_id new_text tr) = tr @ ext \<and> attempts_of ext \<le> 3 \<and>
     (\<forall>e \<in> set ext. e = Bot_edit chat_id msg_id new_text \<or> e = Sleep 2 \<or> e = Sleep 4)"
proof -
  from edit_message_loop_trace [of env chat_id msg_id new_text "[0, 1, 2]" tr]
  obtain ext where ext: "snd (edit_message_loop env chat_id msg_id new_text [0, 1, 2] tr) = tr @ ext"
    "attempts_of ext \<le> length [0::nat, 1, 2]"
    "\<forall>e \<in> set ext. e = Bot_edit chat_id msg_id new_text \<or>
       (\<exists>a \<in> set [0::nat, 1, 2]. a < 2 \<and> e = Sleep (2 ^ (a + 1)))"
    by blast
  from ext(3) have "\<forall>e \<in> set ext. e = Bot_edit chat_id msg_id new_text \<or> e = Sleep 2 \<or> e = Sleep 4"
    by auto
  with ext(1,2) show ?thesis by (auto simp: edit_message_unfold)
qed

lemma send_message_loop_no_telegram_error:
  "fst (send_message_loop env message chat_id as tr) \<noteq> Inl TelegramError"
  by (induction as arbitrary: tr) (auto split: sum.splits)

lemma edit_message_loop_no_telegram_error:
  "fst (edit_message_loop env chat_id msg_id new_text as tr) \<noteq> Inl TelegramError"
  by (induction as arbitrary: tr) (auto split: sum.splits)

lemma send_message_cases:
  "(let B = Bot_send chat_id message;
        r0 = bot_send_message env tr chat_id message;
        r1 = bot_send_message env (tr @ [B, Sleep 2]) chat_id message;
        r2 = bot_send_message env (tr @ [B, Sleep 2, B, Sleep 4]) chat_id message;
        res = send_message env message chat_id tr
    in (\<forall>m. r0 = Inr m \<longrightarrow> res = (Inr (Some m), tr @ [B])) \<and>
       (\<forall>m. r0 = Inl TelegramError \<and> r1 = Inr m \<longrightarrow>
            res = (Inr (Some m), tr @ [B, Sleep 2, B])) \<and>
       (\<forall>m. r0 = Inl TelegramError \<and> r1 = Inl TelegramError \<and> r2 = Inr m \<longrightarrow>
            res = (Inr (Some m), tr @ [B, Sleep 2, B, Sleep 4, B])) \<and>
       (r0 = Inl TelegramError \<and> r1 = Inl TelegramError \<and> r2 = Inl TelegramError \<longrightarrow>
            res = (Inr None, tr @ [B, Sleep 2, B, Sleep 4, B])))"
  by (simp add: send_message_unfold Let_def)

lemma edit_message_cases:
  "(let E = Bot_edit chat_id msg_id new_text;
        r0 = bot_edit_message_text env tr chat_id msg_id new_text;
        r1 = bot_edit_message_text env (tr @ [E, Sleep 2]) chat_id msg_id new_text;
        r2 = bot_edit_message_text env (tr @ [E, Sleep 2, E, Sleep 4]) chat_id msg_id new_text;
        res = edit_message env chat_id msg_id new_text tr
    in (r0 = Inr () \<longrightarrow> res = (Inr True, tr @ [E])) \<and>
       (r0 = Inl TelegramError \<and> r1 = Inr () \<longrightarrow> res = (Inr True, tr @ [E, Sleep 2, E])) \<and>
       (r0 = Inl TelegramError \<and> r1 = Inl TelegramError \<and> r2 = Inr () \<longrightarrow>
            res = (Inr True, tr @ [E, Sleep 2, E, Sleep 4, E])) \<and>
       (r0 = Inl TelegramError \<and> r1 = Inl TelegramError \<and> r2 = Inl TelegramError \<longrightarrow>
            res = (Inr False, tr @ [E, Sleep 2, E, Sleep 4, E])))"
  by (simp add: edit_message_unfold Let_def)

text \<open>
  C9, amended. \<open>send_message\<close> and \<open>edit_message\<close> each call the transport at most 3
  times, sleep 2 seconds after a first failure and 4 seconds after a second, and never 8;
  \<open>send_message\<close> returns the message of the first attempt that succeeds and None when
  all three raise TelegramError, \<open>edit_message\<close> returns True and False likewise, and
  neither lets a TelegramError out.
\<close>

theorem retry_behaviour:
  "(let B = Bot_send chat_id message;
        r0 = bot_send_message env tr chat_id message;
        r1 = bot_send_message env (tr @ [B, Sleep 2]) chat_id message;
        r2 = bot_send_message env (tr @ [B, Sleep 2, B, Sleep 4]) chat_id message;
        res = send_message env message chat_id tr
    in (\<forall>m. r0 = Inr m \<longrightarrow> res = (Inr (Some m), tr @ [B])) \<and>
       (\<forall>m. r0 = Inl TelegramError \<and> r1 = Inr m \<longrightarrow>
            res = (Inr (Some m), tr @ [B, Sleep 2, B])) \<and>
       (\<forall>m. r0 = Inl TelegramError \<and> r1 = Inl TelegramError \<and> r2 = Inr m \<longrightarrow>
            res = (Inr (Some m), tr @ [B, Sleep 2, B, Sleep 4, B])) \<and>
       (r0 = Inl TelegramError \<and> r1 = Inl TelegramError \<and> r2 = Inl TelegramError \<longrightarrow>
            res = (Inr None, tr @ [B, Sleep 2, B, Sleep 4, B])) \<and>
       fst res \<noteq> Inl TelegramError \<and>
       (\<exists>ext. snd res = tr @ ext \<and> attempts_of ext \<le> 3 \<and> Sleep 8 \<notin> set ext)) \<and>
   (let E = Bot_edit chat_id msg_id new_text;
        r0 = bot_edit_message_text env tr chat_id msg_id new_text;
        r1 = bot_edit_message_text env (tr @ [E, Sleep 2]) chat_id msg_id new_text;
        r2 = bot_edit_message_text env (tr @ [E, Sleep 2, E, Sleep 4]) chat_id msg_id new_text;
        res = edit_message env chat_id msg_id new_text tr
    in (r0 = Inr () \<longrightarrow> res = (Inr True, tr @ [E])) \<and>
       (r0 = Inl TelegramError \<and> r1 = Inr () \<longrightarrow> res = (Inr True, tr @ [E, Sleep 2, E])) \<and>
       (r0 = Inl TelegramError \<and> r1 = Inl TelegramError \<and> r2 = Inr () \<longrightarrow>
            res = (Inr True, tr @ [E, Sleep 2, E, Sleep 4, E])) \<and>
       (r0 = Inl TelegramError \<and> r1 = Inl TelegramError \<and> r2 = Inl TelegramError \<longrightarrow>
            res = (Inr False, tr @ [E, Sleep 2, E, Sleep 4, E])) \<and>
       fst res \<noteq> Inl TelegramError \<and>
       (\<exists>ext. snd res = tr @ ext \<and> attempts_of ext \<le> 3 \<and> Sleep 8 \<notin> set ext))"
proof -
  have s8: "\<exists>ext. snd (send_message env message chat_id tr) = tr @ ext \<and> attempts_of ext \<le> 3 \<and>
              Sleep 8 \<notin> set ext"
    using send_message_trace [of env message chat_id tr] by fastforce
  have e8: "\<exists>ext. snd (edit_message env chat_id msg_id new_text tr) = tr @ ext \<and>
              attempts_of ext \<le> 3 \<and> Sleep 8 \<notin> set ext"
    using edit_message_trace [of env chat_id msg_id new_text tr] by fastforce
  have sn: "fst (send_message env message chat_id tr) \<noteq> Inl TelegramError"
    by (simp add: send_message_def send_message_loop_no_telegram_error)
  have en: "fst (edit_message env chat_id msg_id new_text tr) \<noteq> Inl TelegramError"
    by (simp add: edit_message_def edit_message_loop_no_telegram_error)
  show ?thesis
    using send_message_cases [of chat_id message env tr]
      edit_message_cases [of chat_id msg_id new_text env tr] s8 e8 sn en
    unfolding Let_def by blast
qed

theorem retry_behaviour_witness:
  "send_message transport_down ''hi'' 7 [] =
     (Inr None, [Bot_send 7 ''hi'', Sleep 2, Bot_send 7 ''hi'', Sleep 4, Bot_send 7 ''hi'']) \<and>
   edit_message transport_down 7 1 ''hi'' [] =
     (Inr False, [Bot_edit 7 1 ''hi'', Sleep 2, Bot_edit 7 1 ''hi'', Sleep 4, Bot_edit 7 1 ''hi'']) \<and>
   send_message transport_flaky ''hi'' 7 [] =
     (Inr (Some (Message 42)), [Bot_send 7 ''hi'', Sleep 2, Bot_send 7 ''hi'']) \<and>
   edit_message transport_flaky 7 1 ''hi'' [] =
     (Inr True, [Bot_edit 7 1 ''hi'', Sleep 2, Bot_edit 7 1 ''hi''])"
  using retry_behaviour [where env = transport_down and tr = "[]" and chat_id = 7
      and message = "''hi''" and msg_id = 1 and new_text = "''hi''"]
    retry_behaviour [where env = transport_flaky and tr = "[]" and chat_id = 7
      and message = "''hi''" and msg_id = 1 and new_text = "''hi''"]
  by (simp add: transport_down_def transport_flaky_def Let_def)

section \<open>The notification pipeline\<close>












lemmas text_defs =
  partial_text_of_def deal_message_of_def facebook_def newline_def check_mark_def
  warning_sign_def


lemma first_unmet_None: "first_unmet m r = None \<longleftrightarrow> modes_ok m r"
  by (auto simp: first_unmet_def modes_ok_def mode_filters_def)

lemma send_message_first:
  "\<exists>r ext. send_message env message chat_id tr = (r, tr @ [Bot_send chat_id message] @ ext)"
proof (cases "bot_send_message env tr chat_id message")
  case (Inr m)
  then show ?thesis by (simp add: send_message_unfold)
next
  case (Inl e)
  show ?thesis
  proof (cases "e = TelegramError")
    case False
    with Inl show ?thesis by (simp add: send_message_unfold)
  next
    case True
    let ?tr1 = "tr @ [Bot_send chat_id message, Sleep 2]"
    have eq: "send_message env message chat_id tr =
              send_message_loop env message chat_id [1, 2] ?tr1"
      using Inl True by (simp add: send_message_unfold)
    from send_message_loop_trace [of env message chat_id "[1, 2]" ?tr1]
    obtain ext where "snd (send_message_loop env message chat_id [1, 2] ?tr1) = ?tr1 @ ext"
      by blast
    then obtain r where "send_message_loop env message chat_id [1, 2] ?tr1 = (r, ?tr1 @ ext)"
      by (metis prod.collapse)
    with eq show ?thesis
      by (intro exI [of _ r] exI [of _ "Sleep 2 # ext"]) simp
  qed
qed

text \<open>
  C6. For a subscriber whose title test passed and a classification result: when some
  active mode's condition is unmet, the subscriber is skipped with the reason of the first
  such mode in the order mode_only_preferred, near_good_deals, good_deals, and nothing is
  sent; otherwise the provisional message is sent. No mode is unmet exactly when
  mode_only_preferred implies preferred = 1 (Python's True), near_good_deals implies a good
  or near good deal, and good_deals implies a good deal.
\<close>

theorem mode_filter_in_order:
  assumes "\<not> title_excluded py (sub_excluded_words u) title_text"
    and "product_checker env tr (sub_chat_id u) title_text price = Inr result"
  shows "(case first_unmet (sub_modes u) result of
            Some reason \<Rightarrow>
              notify_user py env title_text price link u (psm, tr) =
                (None, psm,
                 tr @ [Product_check (sub_chat_id u) title_text price,
                       Log_skip (sub_chat_id u) reason])
          | None \<Rightarrow>
              (\<exists>psm' ext.
                 notify_user py env title_text price link u (psm, tr) =
                   (None, psm',
                    tr @ [Product_check (sub_chat_id u) title_text price,
                          Bot_send (sub_chat_id u)
                            (partial_text_of (deal_message_of result) price link)] @ ext))) \<and>
         (first_unmet (sub_modes u) result = None \<longleftrightarrow>
            (mode_only_preferred (sub_modes u) \<noteq> 0 \<longrightarrow> preferred result = Some 1) \<and>
            (near_good_deals (sub_modes u) \<noteq> 0 \<longrightarrow> is_good_deal result \<or> near_good_deal result) \<and>
            (good_deals (sub_modes u) \<noteq> 0 \<longrightarrow> is_good_deal result)) \<and>
         (first_unmet (sub_modes u) result = Some Neither_good_nor_near \<longrightarrow>
            mode_only_preferred (sub_modes u) = 0 \<or> preferred result = Some 1) \<and>
         (first_unmet (sub_modes u) result = Some Not_good_deal \<longrightarrow>
            (mode_only_preferred (sub_modes u) = 0 \<or> preferred result = Some 1) \<and>
            (near_good_deals (sub_modes u) = 0 \<or> is_good_deal result \<or> near_good_deal result))"
proof -
  let ?c = "sub_chat_id u"
  let ?tr1 = "tr @ [Product_check ?c title_text price]"
  let ?text = "partial_text_of (deal_message_of result) price link"
  from send_message_first [of env ?text ?c ?tr1]
  obtain r ext where sm: "send_message env ?text ?c ?tr1 = (r, ?tr1 @ [Bot_send ?c ?text] @ ext)"
    by blast
  have sent: "first_unmet (sub_modes u) result = None \<Longrightarrow>
     \<exists>psm' ext. notify_user py env title_text price link u (psm, tr) =
        (None, psm', tr @ [Product_check ?c title_text price, Bot_send ?c ?text] @ ext)"
    using assms sm
    by (auto simp: notify_user_def Let_def first_unmet_def mode_filters_def
             split: sum.splits option.splits if_splits)
  have skip: "\<And>reason. first_unmet (sub_modes u) result = Some reason \<Longrightarrow>
     notify_user py env title_text price link u (psm, tr) =
        (None, psm, tr @ [Product_check ?c title_text price, Log_skip ?c reason])"
    using assms
    by (auto simp: notify_user_def Let_def first_unmet_def mode_filters_def split: if_splits)
  have order: "(first_unmet (sub_modes u) result = None \<longleftrightarrow>
            (mode_only_preferred (sub_modes u) \<noteq> 0 \<longrightarrow> preferred result = Some 1) \<and>
            (near_good_deals (sub_modes u) \<noteq> 0 \<longrightarrow> is_good_deal result \<or> near_good_deal result) \<and>
            (good_deals (sub_modes u) \<noteq> 0 \<longrightarrow> is_good_deal result)) \<and>
         (first_unmet (sub_modes u) result = Some Neither_good_nor_near \<longrightarrow>
            mode_only_preferred (sub_modes u) = 0 \<or> preferred result = Some 1) \<and>
         (first_unmet (sub_modes u) result = Some Not_good_deal \<longrightarrow>
            (mode_only_preferred (sub_modes u) = 0 \<or> preferred result = Some 1) \<and>
            (near_good_deals (sub_modes u) = 0 \<or> is_good_deal result \<or> near_good_deal result))"
    by (auto simp: first_unmet_def mode_filters_def split: if_splits)
  show ?thesis
    using sent skip order by (cases "first_unmet (sub_modes u) result") simp_all
qed

theorem mode_filter_in_order_witness:
  "notify_user ascii_python world_dull ''Road bike'' ''$300'' ''/item/2'' alice ([], []) =
     (None, [], [Product_check 1 ''Road bike'' ''$300'', Log_skip 1 Not_good_deal]) \<and>
   (\<exists>psm' ext.
      notify_user ascii_python world_ok ''Road bike'' ''$300'' ''/item/2'' alice ([], []) =
        (None, psm',
         [Product_check 1 ''Road bike'' ''$300'',
          Bot_send 1 (check_mark @ '' Good Deal @ For $300'' @ newline @
                      ''Link: https://www.facebook.com/item/2'')] @ ext))"
proof -
  have h1: "\<not> title_excluded ascii_python (sub_excluded_words alice) ''Road bike''"
    by (simp add: title_excluded_def alice_def ascii_python_def ascii_lower_def char_defs)
  have h2: "product_checker world_dull [] (sub_chat_id alice) ''Road bike'' ''$300'' =
      Inr \<lparr>product_name = ''bike'', preferred = Some 0, is_good_deal = False,
           near_good_deal = False\<rparr>"
    by (simp add: world_dull_def world_ok_def)
  have h3: "product_checker world_ok [] (sub_chat_id alice) ''Road bike'' ''$300'' =
      Inr \<lparr>product_name = ''bike'', preferred = Some 1, is_good_deal = True,
           near_good_deal = False\<rparr>"
    by (simp add: world_ok_def)
  from mode_filter_in_order [OF h1 h2, of "''/item/2''" "[]"]
       mode_filter_in_order [OF h1 h3, of "''/item/2''" "[]"]
  show ?thesis
    by (simp add: first_unmet_def mode_filters_def alice_def no_modes_def text_defs)
qed

section \<open>The listing poller\<close>

lemma process_listing_malformed:
  "listing_link listing = None \<Longrightarrow> process_listing py env pair user_data listing st = (None, st)"
  by (auto simp: listing_link_def process_listing_def split: option.splits if_splits)

lemma process_listing_first_run:
  "listing_link listing = Some link \<Longrightarrow> first_run st pair = Some True \<Longrightarrow>
   process_listing py env pair user_data listing st =
     (None, st\<lparr>seen_listings := insert link (seen_listings st)\<rparr>)"
  by (auto simp: listing_link_def process_listing_def split: option.splits if_splits)

lemma process_listing_seen:
  "listing_link listing = Some link \<Longrightarrow> link \<in> seen_listings st \<Longrightarrow>
   first_run st pair \<noteq> None \<Longrightarrow>
   process_listing py env pair user_data listing st = (None, st)"
  by (auto simp: listing_link_def process_listing_def insert_absorb split: option.splits if_splits)

lemma process_listing_frame:
  "first_run (snd (process_listing py env pair user_data listing st)) = first_run st \<and>
   LOCATION_STATUS (snd (process_listing py env pair user_data listing st)) = LOCATION_STATUS st \<and>
   LOCATION_USERS (snd (process_listing py env pair user_data listing st)) = LOCATION_USERS st \<and>
   seen_listings st \<subseteq> seen_listings (snd (process_listing py env pair user_data listing st))"
  by (auto simp: process_listing_def Let_def split: option.splits sum.splits prod.splits)

lemma process_listings_frame:
  "first_run (snd (process_listings py env pair user_data listings st)) = first_run st \<and>
   LOCATION_STATUS (snd (process_listings py env pair user_data listings st)) = LOCATION_STATUS st \<and>
   LOCATION_USERS (snd (process_listings py env pair user_data listings st)) = LOCATION_USERS st \<and>
   seen_listings st \<subseteq> seen_listings (snd (process_listings py env pair user_data listings st))"
proof (induction listings arbitrary: st)
  case Nil
  then show ?case by simp
next
  case (Cons listing listings)
  obtain r st1 where step: "process_listing py env pair user_data listing st = (r, st1)"
    by (cases "process_listing py env pair user_data listing st")
  from process_listing_frame [of py env pair user_data listing st] step
  have f1: "first_run st1 = first_run st" "LOCATION_STATUS st1 = LOCATION_STATUS st"
    "LOCATION_USERS st1 = LOCATION_USERS st" "seen_listings st \<subseteq> seen_listings st1"
    by simp_all
  show ?case
  proof (cases r)
    case (Some e)
    with step f1 show ?thesis by simp
  next
    case None
    with step f1 Cons.IH [of st1] show ?thesis by auto
  qed
qed

lemma process_listings_first_run:
  "first_run st pair = Some True \<Longrightarrow>
   process_listings py env pair user_data listings st =
     (None, st\<lparr>seen_listings := seen_listings st \<union> links_of listings\<rparr>)"
proof (induction listings arbitrary: st)
  case Nil
  then show ?case by (simp add: links_of_def map_filter_simps)
next
  case (Cons listing listings)
  show ?case
  proof (cases "listing_link listing")
    case None
    then have "links_of (listing # listings) = links_of listings"
      by (simp add: links_of_def map_filter_simps)
    with None Cons show ?thesis by (simp add: process_listing_malformed)
  next
    case (Some link)
    then have l: "links_of (listing # listings) = insert link (links_of listings)"
      by (simp add: links_of_def map_filter_simps)
    let ?st1 = "st\<lparr>seen_listings := insert link (seen_listings st)\<rparr>"
    have "first_run ?st1 pair = Some True" using Cons.prems by simp
    from Cons.IH [OF this] Some Cons.prems l show ?thesis
      by (simp add: process_listing_first_run)
  qed
qed

lemma process_listings_hide:
  "link \<in> seen_listings st \<Longrightarrow> first_run st pair \<noteq> None \<Longrightarrow>
   process_listings py env pair user_data
     (filter (\<lambda>listing. listing_link listing \<noteq> Some link) listings) st =
   process_listings py env pair user_data listings st"
proof (induction listings arbitrary: st)
  case Nil
  then show ?case by simp
next
  case (Cons listing listings)
  show ?case
  proof (cases "listing_link listing = Some link")
    case True
    with Cons show ?thesis by (simp add: process_listing_seen)
  next
    case False
    obtain r st1 where step: "process_listing py env pair user_data listing st = (r, st1)"
      by (cases "process_listing py env pair user_data listing st")
    from process_listing_frame [of py env pair user_data listing st] step Cons.prems
    have "link \<in> seen_listings st1" "first_run st1 pair \<noteq> None" by auto
    from Cons.IH [OF this] False step show ?thesis by (cases r) simp_all
  qed
qed

lemma hide_link_fields [simp]:
  "bot_send_message (hide_link link env) = bot_send_message env"
  "bot_edit_message_text (hide_link link env) = bot_edit_message_text env"
  "product_checker (hide_link link env) = product_checker env"
  "detail_view (hide_link link env) = detail_view env"
  "calculate_distance (hide_link link env) = calculate_distance env"
  by (simp_all add: hide_link_def)

lemma send_message_loop_hide [simp]:
  "send_message_loop (hide_link link env) message chat_id as tr =
   send_message_loop env message chat_id as tr"
  by (induction as arbitrary: tr) (simp_all cong: option.case_cong sum.case_cong prod.case_cong if_cong)

lemma edit_message_loop_hide [simp]:
  "edit_message_loop (hide_link link env) chat_id msg_id new_text as tr =
   edit_message_loop env chat_id msg_id new_text as tr"
  by (induction as arbitrary: tr) (simp_all cong: option.case_cong sum.case_cong prod.case_cong if_cong)

lemma send_message_hide [simp]:
  "send_message (hide_link link env) = send_message env"
  by (intro ext) (simp add: send_message_def)

lemma edit_message_hide [simp]:
  "edit_message (hide_link link env) = edit_message env"
  by (intro ext) (simp add: edit_message_def)

lemma gather_send_hide [simp]:
  "gather_send (hide_link link env) message ids tr = gather_send env message ids tr"
  by (induction ids arbitrary: tr) (simp_all cong: option.case_cong sum.case_cong prod.case_cong if_cong)

lemma notify_status_change_hide [simp]:
  "notify_status_change py (hide_link link env) = notify_status_change py env"
  by (intro ext) (simp add: notify_status_change_def Let_def cong: option.case_cong sum.case_cong prod.case_cong if_cong)

lemma status_transition_hide [simp]:
  "status_transition py (hide_link link env) = status_transition py env"
  by (intro ext) (simp add: status_transition_def Let_def cong: option.case_cong sum.case_cong prod.case_cong if_cong)

lemma notify_user_hide [simp]:
  "notify_user py (hide_link link env) = notify_user py env"
  by (intro ext) (simp add: notify_user_def Let_def cong: option.case_cong sum.case_cong prod.case_cong if_cong)

lemma notify_users_hide [simp]:
  "notify_users py (hide_link link env) title_text price l subs ps =
   notify_users py env title_text price l subs ps"
  by (induction subs arbitrary: ps) (simp_all cong: option.case_cong sum.case_cong prod.case_cong if_cong)

lemma update_entry_hide [simp]:
  "update_entry (hide_link link env) = update_entry env"
  by (intro ext) (simp add: update_entry_def Let_def cong: option.case_cong sum.case_cong prod.case_cong if_cong)

lemma update_entries_hide [simp]:
  "update_entries (hide_link link env) address latitude longitude price l psm tr =
   update_entries env address latitude longitude price l psm tr"
  by (induction psm arbitrary: tr) simp_all

lemma process_listing_hide [simp]:
  "process_listing py (hide_link link env) = process_listing py env"
  by (intro ext) (simp add: process_listing_def Let_def cong: option.case_cong sum.case_cong prod.case_cong if_cong)

lemma process_listings_env_hide [simp]:
  "process_listings py (hide_link link env) pair user_data listings st =
   process_listings py env pair user_data listings st"
  by (induction listings arbitrary: st) (simp_all cong: option.case_cong sum.case_cong prod.case_cong if_cong)

lemma notify_status_change_frame:
  "first_run (snd (notify_status_change py env location active reason nct st)) = first_run st \<and>
   seen_listings (snd (notify_status_change py env location active reason nct st)) = seen_listings st"
  by (simp add: notify_status_change_def split: option.splits prod.splits)

lemma status_transition_frame:
  "first_run (snd (status_transition py env clk location active reason nct st)) = first_run st \<and>
   seen_listings (snd (status_transition py env clk location active reason nct st)) = seen_listings st"
proof -
  obtain r st1 where n: "notify_status_change py env (py_lower py location) active reason (Some nct) st = (r, st1)"
    by (cases "notify_status_change py env (py_lower py location) active reason (Some nct) st")
  with notify_status_change_frame [of py env "py_lower py location" active reason "Some nct" st]
  have "first_run st1 = first_run st" "seen_listings st1 = seen_listings st" by simp_all
  with n show ?thesis
    by (auto simp: status_transition_def split: option.splits sum.splits)
qed

lemma check_marketplace_pair_hide:
  assumes "link \<in> seen_listings st" and "first_run st pair \<noteq> None"
  shows "check_marketplace_pair py (hide_link link env) clk pair user_data st =
         check_marketplace_pair py env clk pair user_data st"
proof -
  obtain keyword location where pair: "pair = (keyword, location)" by (cases pair)
  show ?thesis
  proof (cases "is_monitoring_active py clk location")
    case (Inl e)
    with pair show ?thesis by (simp add: check_marketplace_pair_def)
  next
    case (Inr res)
    obtain active reason nct where res: "res = (active, reason, nct)" by (cases res) auto
    obtain r st1 where tr: "status_transition py env clk location active reason nct st = (r, st1)"
      by (cases "status_transition py env clk location active reason nct st")
    from status_transition_frame [of py env clk location active reason nct st] tr assms
    have inv: "link \<in> seen_listings st1" "first_run st1 pair \<noteq> None" by simp_all
    let ?st2 = "st1\<lparr>trace := trace st1 @ [Fetch_listings keyword location]\<rparr>"
    have inv2: "link \<in> seen_listings ?st2" "first_run ?st2 pair \<noteq> None" using inv by simp_all
    show ?thesis
      using pair Inr res tr process_listings_hide [OF inv2, of py env user_data]
      by (auto simp: check_marketplace_pair_def hide_link_def [of link env, THEN arg_cong, of search_page] Let_def
               split: sum.splits option.splits)
  qed
qed

lemma check_marketplace_pair_frame:
  "seen_listings st \<subseteq> seen_listings (snd (check_marketplace_pair py env clk pair user_data st)) \<and>
   dom (first_run st) \<subseteq> dom (first_run (snd (check_marketplace_pair py env clk pair user_data st)))"
proof -
  obtain keyword location where pair: "pair = (keyword, location)" by (cases pair)
  show ?thesis
  proof (cases "is_monitoring_active py clk location")
    case (Inl e)
    with pair show ?thesis by (simp add: check_marketplace_pair_def)
  next
    case (Inr res)
    obtain active reason nct where res: "res = (active, reason, nct)" by (cases res) auto
    obtain r st1 where tr: "status_transition py env clk location active reason nct st = (r, st1)"
      by (cases "status_transition py env clk location active reason nct st")
    from status_transition_frame [of py env clk location active reason nct st] tr
    have f1: "seen_listings st1 = seen_listings st" "first_run st1 = first_run st" by simp_all
    let ?st2 = "st1\<lparr>trace := trace st1 @ [Fetch_listings keyword location]\<rparr>"
    have f2: "\<And>listings. seen_listings st \<subseteq>
          seen_listings (snd (process_listings py env pair user_data listings ?st2)) \<and>
        first_run (snd (process_listings py env pair user_data listings ?st2)) = first_run st"
      using process_listings_frame [of py env pair user_data _ ?st2] f1 by simp
    show ?thesis
    proof (cases "active \<and> r = None")
      case False
      with pair Inr res tr f1 show ?thesis
        by (auto simp: check_marketplace_pair_def)
    next
      case True
      show ?thesis
      proof (cases "search_page env (trace st1) keyword location")
        case (Inl e)
        with pair Inr res tr f1 True show ?thesis
          by (auto simp: check_marketplace_pair_def Let_def)
      next
        case sp: (Inr listings)
        obtain r3 st3 where pl: "process_listings py env pair user_data listings ?st2 = (r3, st3)"
          by (cases "process_listings py env pair user_data listings ?st2")
        with f2 [of listings] have "seen_listings st \<subseteq> seen_listings st3"
          "first_run st3 = first_run st" by simp_all
        with pair Inr res tr True sp pl show ?thesis
          by (cases r3) (auto simp: check_marketplace_pair_def Let_def)
      qed
    qed
  qed
qed

lemma polls_hide:
  "link \<in> seen_listings st \<Longrightarrow> first_run st pair \<noteq> None \<Longrightarrow>
   polls py (hide_link link env) clks pair user_data st = polls py env clks pair user_data st \<and>
   link \<in> seen_listings (snd (polls py env clks pair user_data st))"
proof (induction clks arbitrary: st)
  case Nil
  then show ?case by simp
next
  case (Cons clk clks)
  obtain r st1 where step: "check_marketplace_pair py env clk pair user_data st = (r, st1)"
    by (cases "check_marketplace_pair py env clk pair user_data st")
  from check_marketplace_pair_frame [of st py env clk pair user_data] step Cons.prems
  have inv: "link \<in> seen_listings st1" "first_run st1 pair \<noteq> None" by auto
  from check_marketplace_pair_hide [OF Cons.prems, of py env clk user_data] step
  have h: "check_marketplace_pair py (hide_link link env) clk pair user_data st = (r, st1)" by simp
  show ?case
  proof (cases r)
    case (Some e)
    with step h inv show ?thesis by simp
  next
    case None
    with step h Cons.IH [OF inv] show ?thesis by simp
  qed
qed

text \<open>
  C4. Let a link be in \<open>seen_listings\<close> (and the pair have its flag in \<open>first_run\<close>).
  Processing a well-formed record of that link changes nothing: no classifier call, no
  send, no edit. And however many polls of the pair follow, they behave, and leave the
  state and the trace, exactly as if the search pages never showed the link; the link
  stays in \<open>seen_listings\<close>.
\<close>

theorem seen_link_never_notified:
  assumes "link \<in> seen_listings st" and "first_run st pair \<noteq> None"
  shows "(\<forall>listing. listing_link listing = Some link \<longrightarrow>
            process_listing py env pair user_data listing st = (None, st)) \<and>
         polls py (hide_link link env) clks pair user_data st = polls py env clks pair user_data st \<and>
         link \<in> seen_listings (snd (polls py env clks pair user_data st))"
  using assms polls_hide [OF assms] by (simp add: process_listing_seen)

theorem seen_link_never_notified_witness:
  "process_listing ascii_python world_ok bike_melbourne bike_subscribers broken_bike
     (polled\<lparr>seen_listings := {''/item/1''}\<rparr>) =
     (None, polled\<lparr>seen_listings := {''/item/1''}\<rparr>) \<and>
   polls ascii_python (hide_link ''/item/1'' world_ok) [noon, noon] bike_melbourne bike_subscribers
     (polled\<lparr>seen_listings := {''/item/1''}\<rparr>) =
   polls ascii_python world_ok [noon, noon] bike_melbourne bike_subscribers
     (polled\<lparr>seen_listings := {''/item/1''}\<rparr>) \<and>
   ''/item/1'' \<in> seen_listings (snd (polls ascii_python world_ok [noon, noon] bike_melbourne bike_subscribers
     (polled\<lparr>seen_listings := {''/item/1''}\<rparr>)))"
proof -
  let ?st = "polled\<lparr>seen_listings := {''/item/1''}\<rparr>"
  have h1: "''/item/1'' \<in> seen_listings ?st" by simp
  have h2: "first_run ?st bike_melbourne \<noteq> None" by (simp add: polled_def)
  have h3: "listing_link broken_bike = Some ''/item/1''"
    by (simp add: listing_link_def broken_bike_def)
  from seen_link_never_notified [OF h1 h2, of ascii_python world_ok bike_subscribers "[noon, noon]"] h3
  show ?thesis by blast
qed

lemma check_marketplace_pair_first_run:
  assumes "first_run st (keyword, location) = Some True"
    and "is_monitoring_active py clk location = Inr (True, reason, nct)"
    and "status_transition py env clk location True reason nct st = (None, st1)"
    and "search_page env (trace st1) keyword location = Inr listings"
  shows "check_marketplace_pair py env clk (keyword, location) user_data st =
           (None, st1\<lparr>trace := trace st1 @ [Fetch_listings keyword location],
                      seen_listings := seen_listings st1 \<union> links_of listings,
                      first_run := (first_run st1)((keyword, location) \<mapsto> False)\<rparr>)"
proof -
  from status_transition_frame [of py env clk location True reason nct st] assms(1,3)
  have "first_run (st1\<lparr>trace := trace st1 @ [Fetch_listings keyword location]\<rparr>)
          (keyword, location) = Some True" by simp
  from process_listings_first_run [OF this, of py env user_data listings] assms
  show ?thesis by (simp add: check_marketplace_pair_def)
qed

text \<open>
  C5. For a pair whose first-run flag is set, the loop over the records of a poll adds the
  link of every well-formed record to \<open>seen_listings\<close> and does nothing else: the trace
  is unchanged, so no classifier is called and nothing is sent. A poll that reaches the
  search page therefore only adds the fetch to the trace, seeds the links and clears the
  flag.
\<close>

theorem first_run_seeds_without_notifying:
  assumes "first_run st pair = Some True"
  shows "process_listings py env pair user_data listings st =
           (None, st\<lparr>seen_listings := seen_listings st \<union> links_of listings\<rparr>) \<and>
         (\<forall>keyword location reason nct st1 found.
            pair = (keyword, location) \<and>
            is_monitoring_active py clk location = Inr (True, reason, nct) \<and>
            status_transition py env clk location True reason nct st = (None, st1) \<and>
            search_page env (trace st1) keyword location = Inr found \<longrightarrow>
            check_marketplace_pair py env clk pair user_data st =
              (None, st1\<lparr>trace := trace st1 @ [Fetch_listings keyword location],
                         seen_listings := seen_listings st1 \<union> links_of found,
                         first_run := (first_run st1)(pair \<mapsto> False)\<rparr>))"
  using assms process_listings_first_run [OF assms] check_marketplace_pair_first_run
  by blast

theorem first_run_seeds_without_notifying_witness:
  "process_listings ascii_python world_ok bike_melbourne bike_subscribers [broken_bike, road_bike] fresh =
     (None, fresh\<lparr>seen_listings := {''/item/1'', ''/item/2''}\<rparr>) \<and>
   fst (check_marketplace_pair ascii_python world_ok noon bike_melbourne bike_subscribers fresh) = None \<and>
   trace (snd (check_marketplace_pair ascii_python world_ok noon bike_melbourne bike_subscribers fresh)) =
     [Fetch_listings ''bike'' ''melbourne''] \<and>
   seen_listings (snd (check_marketplace_pair ascii_python world_ok noon bike_melbourne bike_subscribers fresh)) =
     {''/item/1'', ''/item/2''} \<and>
   first_run (snd (check_marketplace_pair ascii_python world_ok noon bike_melbourne bike_subscribers fresh))
     bike_melbourne = Some False"
proof -
  have h: "first_run fresh bike_melbourne = Some True" by (simp add: fresh_def)
  have l: "links_of [broken_bike, road_bike] = {''/item/1'', ''/item/2''}"
    by (simp add: links_of_def map_filter_simps listing_link_def broken_bike_def road_bike_def)
  have a: "is_monitoring_active ascii_python noon ''melbourne'' =
      Inr (True, day_reason ''melbourne'' (time_of (noon Australia_Melbourne)),
           \<lparr>year = 2024, month = 1, day = 15, hour = 22, minute = 0, second = 0,
            microsecond = 0\<rparr>)"
    by (simp add: schedule_defs noon_def get_location_timezone_def LOCATION_TIMEZONES_def
          ascii_python_def ascii_lower_def char_defs)
  have t: "\<And>reason nct. status_transition ascii_python world_ok noon ''melbourne'' True reason nct fresh = (None, fresh)"
    by (simp add: status_transition_def fresh_def)
  have s: "search_page world_ok (trace fresh) ''bike'' ''melbourne'' = Inr [broken_bike, road_bike]"
    by (simp add: world_ok_def broken_bike_def road_bike_def)
  from first_run_seeds_without_notifying [OF h, of ascii_python world_ok bike_subscribers "[broken_bike, road_bike]" noon]
  have p1: "process_listings ascii_python world_ok bike_melbourne bike_subscribers [broken_bike, road_bike] fresh =
             (None, fresh\<lparr>seen_listings := seen_listings fresh \<union> links_of [broken_bike, road_bike]\<rparr>)"
    and p2: "\<And>keyword location reason nct st1 found.
            bike_melbourne = (keyword, location) \<and>
            is_monitoring_active ascii_python noon location = Inr (True, reason, nct) \<and>
            status_transition ascii_python world_ok noon location True reason nct fresh = (None, st1) \<and>
            search_page world_ok (trace st1) keyword location = Inr found \<Longrightarrow>
            check_marketplace_pair ascii_python world_ok noon bike_melbourne bike_subscribers fresh =
              (None, st1\<lparr>trace := trace st1 @ [Fetch_listings keyword location],
                         seen_listings := seen_listings st1 \<union> links_of found,
                         first_run := (first_run st1)(bike_melbourne \<mapsto> False)\<rparr>)"
    by blast+
  have "check_marketplace_pair ascii_python world_ok noon bike_melbourne bike_subscribers fresh =
          (None, fresh\<lparr>trace := trace fresh @ [Fetch_listings ''bike'' ''melbourne''],
                         seen_listings := seen_listings fresh \<union> links_of [broken_bike, road_bike],
                         first_run := (first_run fresh)(bike_melbourne \<mapsto> False)\<rparr>)"
    by (rule p2) (simp add: bike_melbourne_def a t s)
  with p1 l show ?thesis by (simp add: fresh_def)
qed

section \<open>The subscription compiler\<close>

lemma lookup_list_map_append:
  "lookup_list (map_append k v m) k' =
     (if k' = k then lookup_list m k @ [v] else lookup_list m k')"
  by (cases "map_of m k")
     (auto simp: lookup_list_def map_append_def update_conv' map_add_def split: option.splits)

lemma keys_map_append: "fst ` set (map_append k v m) = insert k (fst ` set m)"
  by (cases "map_of m k") (auto simp: map_append_def dom_update)

lemma keyword_step_result:
  assumes "keyword_step py clk u k (acc, st) = (None, acc', st')"
  shows "user_pair_map acc' =
           map_append (k, user_location u) (subscriber_config u) (user_pair_map acc) \<and>
         LOCATION_USERS st' = LOCATION_USERS st"
  using assms
  by (auto simp: keyword_step_def subscriber_config_def Let_def
           split: sum.splits if_splits prod.splits)

lemma keyword_loop_result:
  "keyword_loop py clk u ks (acc, st) = (None, acc', st') \<Longrightarrow>
   (\<forall>p. lookup_list (user_pair_map acc') p =
          lookup_list (user_pair_map acc) p @
          (if snd p = user_location u
           then replicate (count_list ks (fst p)) (subscriber_config u) else [])) \<and>
   fst ` set (user_pair_map acc') =
     fst ` set (user_pair_map acc) \<union> {(k, user_location u) | k. k \<in> set ks} \<and>
   LOCATION_USERS st' = LOCATION_USERS st"
proof (induction ks arbitrary: acc st)
  case Nil
  then show ?case by simp
next
  case (Cons k ks)
  obtain r acc1 st1 where step: "keyword_step py clk u k (acc, st) = (r, acc1, st1)"
    by (cases "keyword_step py clk u k (acc, st)") auto
  with Cons.prems have r: "r = None" by (cases r) auto
  with step Cons.prems have rest: "keyword_loop py clk u ks (acc1, st1) = (None, acc', st')"
    by simp
  from keyword_step_result [OF step [unfolded r]]
  have s1: "user_pair_map acc1 =
           map_append (k, user_location u) (subscriber_config u) (user_pair_map acc)"
    "LOCATION_USERS st1 = LOCATION_USERS st" by simp_all
  note i = Cons.IH [OF rest]
  have a: "\<forall>p. lookup_list (user_pair_map acc') p =
          lookup_list (user_pair_map acc) p @
          (if snd p = user_location u
           then replicate (count_list (k # ks) (fst p)) (subscriber_config u) else [])"
  proof
    fix p :: "string \<times> string"
    from i have "lookup_list (user_pair_map acc') p =
          lookup_list (user_pair_map acc1) p @
          (if snd p = user_location u
           then replicate (count_list ks (fst p)) (subscriber_config u) else [])" by blast
    then show "lookup_list (user_pair_map acc') p =
          lookup_list (user_pair_map acc) p @
          (if snd p = user_location u
           then replicate (count_list (k # ks) (fst p)) (subscriber_config u) else [])"
      by (cases p) (auto simp: s1 lookup_list_map_append replicate_app_Cons_same)
  qed
  have b: "fst ` set (user_pair_map acc') =
     fst ` set (user_pair_map acc) \<union> {(k', user_location u) | k'. k' \<in> set (k # ks)}"
    using i s1 by (auto simp: keys_map_append)
  have c: "LOCATION_USERS st' = LOCATION_USERS st"
    using i s1 by simp
  from a b c show ?case by blast
qed

lemma user_step_skip:
  "well_formed_expiry py u \<Longrightarrow> \<not> eligible py today u \<Longrightarrow> user_step py clk today u cs = (None, cs)"
  by (cases cs)
     (auto simp: user_step_def well_formed_expiry_def eligible_def skipped_def Let_def
           split: sum.splits option.splits)

lemma user_step_well_formed:
  "user_step py clk today u cs = (None, cs') \<Longrightarrow> well_formed_expiry py u"
  by (cases cs) (auto simp: user_step_def well_formed_expiry_def Let_def split: sum.splits)

lemma user_step_result:
  assumes "user_step py clk today u (acc, st) = (None, acc', st')"
  shows "(\<forall>p. lookup_list (user_pair_map acc') p =
            lookup_list (user_pair_map acc) p @
            (if eligible py today u \<and> user_location u = snd p
             then replicate (count_list (user_keywords u) (fst p)) (subscriber_config u)
             else [])) \<and>
         fst ` set (user_pair_map acc') =
           fst ` set (user_pair_map acc) \<union> {p. eligible py today u \<and> subscribes u p} \<and>
         (\<forall>key. ids_of st' key =
            ids_of st key \<union>
            (if eligible py today u \<and> key = py_lower py (user_location u)
             then {user_id u} else {}))"
proof (cases "eligible py today u")
  case False
  with assms have "acc' = acc \<and> st' = st"
    by (auto simp: user_step_def eligible_def skipped_def Let_def
           split: sum.splits option.splits if_splits)
  with False show ?thesis by simp
next
  case True
  let ?key = "py_lower py (user_location u)"
  let ?st1 = "st\<lparr>LOCATION_USERS := (LOCATION_USERS st)
      (?key \<mapsto> set_add (user_id u) (case LOCATION_USERS st ?key of None \<Rightarrow> [] | Some l \<Rightarrow> l))\<rparr>"
  from True assms have kl: "keyword_loop py clk u (user_keywords u) (acc, ?st1) = (None, acc', st')"
    by (auto simp: user_step_def eligible_def skipped_def Let_def
           split: sum.splits option.splits if_splits)
  have ids: "\<forall>key. ids_of ?st1 key =
      ids_of st key \<union> (if key = ?key then {user_id u} else {})"
    by (auto simp: ids_of_def set_add_def split: option.splits)
  from keyword_loop_result [OF kl] ids True show ?thesis
    by (auto simp: subscribes_def ids_of_def)
qed

lemma user_loop_result:
  "user_loop py clk today users (acc, st) = (None, acc', st') \<Longrightarrow>
   (\<forall>p. lookup_list (user_pair_map acc') p =
          lookup_list (user_pair_map acc) p @
          concat (map (\<lambda>u. if eligible py today u \<and> user_location u = snd p
                           then replicate (count_list (user_keywords u) (fst p))
                                  (subscriber_config u)
                           else []) users)) \<and>
   fst ` set (user_pair_map acc') =
     fst ` set (user_pair_map acc) \<union>
     {p. \<exists>u \<in> set users. eligible py today u \<and> subscribes u p} \<and>
   (\<forall>key. ids_of st' key =
          ids_of st key \<union>
          {user_id u | u. u \<in> set users \<and> eligible py today u \<and>
             key = py_lower py (user_location u)}) \<and>
   (\<forall>u \<in> set users. well_formed_expiry py u)"
proof (induction users arbitrary: acc st)
  case Nil
  then show ?case by simp
next
  case (Cons u users)
  obtain r acc1 st1 where step: "user_step py clk today u (acc, st) = (r, acc1, st1)"
    by (cases "user_step py clk today u (acc, st)") auto
  with Cons.prems have r: "r = None" by (cases r) auto
  with step Cons.prems have rest: "user_loop py clk today users (acc1, st1) = (None, acc', st')"
    by simp
  note s = user_step_result [OF step [unfolded r]]
  note w = user_step_well_formed [OF step [unfolded r]]
  note i = Cons.IH [OF rest]
  have a: "\<forall>p. lookup_list (user_pair_map acc') p =
          lookup_list (user_pair_map acc) p @
          concat (map (\<lambda>u. if eligible py today u \<and> user_location u = snd p
                           then replicate (count_list (user_keywords u) (fst p))
                                  (subscriber_config u)
                           else []) (u # users))"
    using s i by simp
  have b: "fst ` set (user_pair_map acc') =
     fst ` set (user_pair_map acc) \<union>
     {p. \<exists>v \<in> set (u # users). eligible py today v \<and> subscribes v p}"
    using s i by auto
  have c: "\<forall>key. ids_of st' key =
          ids_of st key \<union>
          {user_id v | v. v \<in> set (u # users) \<and> eligible py today v \<and>
             key = py_lower py (user_location v)}"
    using s i by auto
  have d: "\<forall>v \<in> set (u # users). well_formed_expiry py v"
    using w i by simp
  from a b c d show ?case by blast
qed

lemma user_loop_filter:
  "\<forall>u \<in> set users. well_formed_expiry py u \<Longrightarrow>
   user_loop py clk today (filter (eligible py today) users) cs = user_loop py clk today users cs"
proof (induction users arbitrary: cs)
  case Nil
  then show ?case by simp
next
  case (Cons u users)
  then show ?case
    by (cases "eligible py today u") (simp_all add: user_step_skip split: prod.splits option.splits)
qed

lemma user_loop_malformed:
  "u \<in> set users \<Longrightarrow> \<not> well_formed_expiry py u \<Longrightarrow>
   fst (user_loop py clk today users (acc, st)) \<noteq> None"
proof -
  assume u: "u \<in> set users" and n: "\<not> well_formed_expiry py u"
  obtain r acc' st' where l: "user_loop py clk today users (acc, st) = (r, acc', st')"
    by (cases "user_loop py clk today users (acc, st)") auto
  show ?thesis
  proof (cases r)
    case None
    from user_loop_result [OF l [unfolded None]] u n show ?thesis by blast
  next
    case (Some e)
    with l show ?thesis by simp
  qed
qed

lemma ascii_python_simps:
  "py_lower ascii_python = ascii_lower"
  "py_title ascii_python = ascii_title"
  "py_strptime ascii_python = ascii_strptime"
  by (simp_all add: ascii_python_def)

lemmas tz_defs =
  get_location_timezone_def LOCATION_TIMEZONES_def DEFAULT_TIMEZONE_def ascii_python_simps
  ascii_lower_def

lemma sample_expiry:
  "ascii_strptime ''2030-01-01'' = Inr (2030, 1, 1)"
  "ascii_strptime ''2024-01-14'' = Inr (2024, 1, 14)"
  "ascii_strptime ''next year'' = Inl ValueError"
  by (simp_all add: ascii_strptime_def year_field_def month_field_def day_field_def is_digit_def
        digit_val_def nat_of_digits_def days_in_month_def)

lemma sample_eligible:
  "eligible ascii_python (date_of (noon UTC)) carol"
  "\<not> eligible ascii_python (date_of (noon UTC)) dave"
  "eligible ascii_python (date_of (noon UTC)) erin"
  "well_formed_expiry ascii_python carol" "well_formed_expiry ascii_python dave"
  "well_formed_expiry ascii_python erin" "\<not> well_formed_expiry ascii_python mallory"
  by (simp_all add: eligible_def well_formed_expiry_def carol_def dave_def erin_def mallory_def
        sample_expiry ascii_python_simps date_of_def date_less_def noon_def)

lemma month_end_eligible:
  "eligible ascii_python (date_of (month_end_night UTC)) carol"
  "eligible ascii_python (date_of (month_end_night UTC)) erin"
  by (simp_all add: eligible_def carol_def erin_def sample_expiry ascii_python_simps date_of_def
        date_less_def month_end_night_def)

lemma noon_active:
  "is_monitoring_active ascii_python noon ''melbourne'' =
     Inr (True, ''Daytime hours in melbourne (local time: 12:00)'',
          \<lparr>year = 2024, month = 1, day = 15, hour = 22, minute = 0, second = 0,
           microsecond = 0\<rparr>)"
  by (simp add: schedule_defs tz_defs char_defs noon_def day_reason_def format_defs)

lemma noon_date: "date_of (noon UTC) = (2024, 1, 15)"
  by (simp add: date_of_def noon_def)

lemma noon_compiled:
  "fst (generate_pairs_and_log ascii_python noon (noon UTC) [carol, dave, erin] daytime) =
     Inr ([(''bike'', ''melbourne'')], [((''bike'', ''melbourne''), [\<lparr>sub_chat_id = 3, sub_excluded_words = [], sub_fixed_lat = 0,
          sub_fixed_lon = 0, sub_modes = no_modes\<rparr>])])"
  by code_simp

text \<open>
  C8 as the claim states it fails: a user record with a well-formed expiry date, the
  activation flag set and the expiry date not before today contributes nothing when
  another record of the list has a malformed expiry date. \<open>datetime.strptime\<close> raises
  ValueError at line 160 on that record, the exception leaves \<open>generate_pairs_and_log\<close>
  and no pair and no subscriber configuration is returned. Here the first record has the
  expiry date \<open>next year\<close> and the second is well-formed and eligible.
\<close>

theorem malformed_expiry_stops_compiler:
  "well_formed_expiry ascii_python carol \<and>
   eligible ascii_python (date_of (noon UTC)) carol \<and>
   user_keywords carol = [''bike''] \<and>
   \<not> well_formed_expiry ascii_python mallory \<and>
   fst (generate_pairs_and_log ascii_python noon (noon UTC) [mallory, carol] daytime) =
     Inl ValueError"
proof -
  have "fst (generate_pairs_and_log ascii_python noon (noon UTC) [mallory, carol] daytime) =
     Inl ValueError"
    by (simp add: generate_pairs_and_log_def user_step_def Let_def mallory_def carol_def
          ascii_python_simps sample_expiry)
  moreover have "user_keywords carol = [''bike'']"
    by (simp add: carol_def)
  ultimately show ?thesis using sample_eligible(1,4,7) by simp
qed

text \<open>
  C8, amended. Let the compiler return (it raises ValueError as soon as one record has a
  malformed expiry date, so every record then has a well-formed one). Then the subscriber
  list of every pair (keyword, location) is, in the order of the user list, the
  configuration (chat id, excluded words, reference coordinate, mode mapping) of each
  user whose activation flag is set, whose expiry date is not before today and whose
  location is the pair's, once for each occurrence of the keyword in the user's keyword
  list; the pairs of the map are exactly those some such user subscribes to; and the
  compiler returns the same for the eligible users alone. A user is eligible when the
  expiry date parses to a date \<open>d\<close>, the activation flag is present and not zero, and
  \<open>d\<close> is not before today. Today is the date of \<open>datetime.now()\<close>: two clock
  readings with the same date give the same result.
\<close>

theorem compiler_contributes_iff_eligible:
  assumes "generate_pairs_and_log py clk sysnow users st = (Inr (act, upm), st')"
  shows "(\<forall>u \<in> set users. well_formed_expiry py u) \<and>
         (\<forall>keyword location.
            lookup_list upm (keyword, location) =
            concat (map (\<lambda>u. if eligible py (date_of sysnow) u \<and> user_location u = location
                             then replicate (count_list (user_keywords u) keyword)
                                    \<lparr>sub_chat_id = user_id u, sub_excluded_words = user_excluded_words u,
                          sub_fixed_lat = user_fixed_lat u, sub_fixed_lon = user_fixed_lon u,
                          sub_modes = user_modes u\<rparr>
                             else []) users)) \<and>
         (\<forall>p. p \<in> fst ` set upm \<longleftrightarrow>
            (\<exists>u \<in> set users. eligible py (date_of sysnow) u \<and> subscribes u p)) \<and>
         generate_pairs_and_log py clk sysnow (filter (eligible py (date_of sysnow)) users) st =
           generate_pairs_and_log py clk sysnow users st \<and>
         (\<forall>sysnow'. date_of sysnow' = date_of sysnow \<longrightarrow>
            generate_pairs_and_log py clk sysnow' users st =
            generate_pairs_and_log py clk sysnow users st) \<and>
         (\<forall>u. eligible py (date_of sysnow) u \<longleftrightarrow>
            (\<exists>d a. py_strptime py (case expiry_date u of None \<Rightarrow> ''1970-01-01'' | Some x \<Rightarrow> x) = Inr d \<and>
               activation_status u = Some a \<and> a \<noteq> 0 \<and> \<not> date_less d (date_of sysnow)))"
proof -
  let ?today = "date_of sysnow"
  let ?acc0 = "\<lparr>pairs = [], user_pair_map = [], active_pairs = []\<rparr>"
  let ?st0 = "st\<lparr>LOCATION_USERS := Map.empty\<rparr>"
  obtain r acc1 st1 where ul: "user_loop py clk ?today users (?acc0, ?st0) = (r, acc1, st1)"
    by (cases "user_loop py clk ?today users (?acc0, ?st0)") auto
  with assms have r: "r = None" and upm: "upm = user_pair_map acc1"
    by (auto simp: generate_pairs_and_log_def Let_def split: option.splits sum.splits)
  note res = user_loop_result [OF ul [unfolded r]]
  have empty: "\<And>p. lookup_list (user_pair_map ?acc0) p = []"
    by (simp add: lookup_list_def)
  have W: "\<forall>u \<in> set users. well_formed_expiry py u"
    using res by blast
  have L: "\<forall>keyword location.
            lookup_list upm (keyword, location) =
            concat (map (\<lambda>u. if eligible py ?today u \<and> user_location u = location
                             then replicate (count_list (user_keywords u) keyword)
                                    \<lparr>sub_chat_id = user_id u, sub_excluded_words = user_excluded_words u,
                          sub_fixed_lat = user_fixed_lat u, sub_fixed_lon = user_fixed_lon u,
                          sub_modes = user_modes u\<rparr>
                             else []) users)"
  proof (intro allI)
    fix keyword location
    from res have "lookup_list (user_pair_map acc1) (keyword, location) =
        lookup_list (user_pair_map ?acc0) (keyword, location) @
        concat (map (\<lambda>u. if eligible py ?today u \<and> user_location u = snd (keyword, location)
                           then replicate (count_list (user_keywords u) (fst (keyword, location)))
                                  (subscriber_config u)
                           else []) users)"
      by blast
    then show "lookup_list upm (keyword, location) =
            concat (map (\<lambda>u. if eligible py ?today u \<and> user_location u = location
                             then replicate (count_list (user_keywords u) keyword)
                                    \<lparr>sub_chat_id = user_id u, sub_excluded_words = user_excluded_words u,
                          sub_fixed_lat = user_fixed_lat u, sub_fixed_lon = user_fixed_lon u,
                          sub_modes = user_modes u\<rparr>
                             else []) users)"
      unfolding upm subscriber_config_def fst_conv snd_conv empty by simp
  qed
  have K: "\<forall>p. p \<in> fst ` set upm \<longleftrightarrow>
            (\<exists>u \<in> set users. eligible py ?today u \<and> subscribes u p)"
    using res upm by auto
  have A: "generate_pairs_and_log py clk sysnow (filter (eligible py ?today) users) st =
           generate_pairs_and_log py clk sysnow users st"
    by (simp add: generate_pairs_and_log_def Let_def user_loop_filter [OF W])
  have C: "\<forall>sysnow'. date_of sysnow' = ?today \<longrightarrow>
            generate_pairs_and_log py clk sysnow' users st =
            generate_pairs_and_log py clk sysnow users st"
    by (simp add: generate_pairs_and_log_def Let_def)
  have D: "\<forall>u. eligible py ?today u \<longleftrightarrow>
            (\<exists>d a. py_strptime py (case expiry_date u of None \<Rightarrow> ''1970-01-01'' | Some x \<Rightarrow> x) = Inr d \<and>
               activation_status u = Some a \<and> a \<noteq> 0 \<and> \<not> date_less d ?today)"
    by (auto simp: eligible_def split: sum.splits option.splits)
  from W L K A C D show ?thesis by (intro conjI)
qed

theorem compiler_contributes_iff_eligible_witness:
  "fst (generate_pairs_and_log ascii_python noon (noon UTC) [carol, dave, erin] daytime) =
     Inr ([(''bike'', ''melbourne'')], [((''bike'', ''melbourne''), [\<lparr>sub_chat_id = 3, sub_excluded_words = [], sub_fixed_lat = 0,
          sub_fixed_lon = 0, sub_modes = no_modes\<rparr>])]) \<and>
   (\<forall>keyword location.
      lookup_list [((''bike'', ''melbourne''), [\<lparr>sub_chat_id = 3, sub_excluded_words = [], sub_fixed_lat = 0,
          sub_fixed_lon = 0, sub_modes = no_modes\<rparr>])] (keyword, location) =
      concat (map (\<lambda>u. if eligible ascii_python (date_of (noon UTC)) u \<and>
                          user_location u = location
                       then replicate (count_list (user_keywords u) keyword)
                              \<lparr>sub_chat_id = user_id u, sub_excluded_words = user_excluded_words u,
                          sub_fixed_lat = user_fixed_lat u, sub_fixed_lon = user_fixed_lon u,
                          sub_modes = user_modes u\<rparr>
                       else []) [carol, dave, erin])) \<and>
   generate_pairs_and_log ascii_python noon (noon UTC) [carol, erin] daytime =
     generate_pairs_and_log ascii_python noon (noon UTC) [carol, dave, erin] daytime"
proof -
  let ?g = "generate_pairs_and_log ascii_python noon (noon UTC) [carol, dave, erin] daytime"
  have f: "filter (eligible ascii_python (date_of (noon UTC))) [carol, dave, erin] = [carol, erin]"
    by (simp add: sample_eligible)
  have g: "?g = (Inr ([(''bike'', ''melbourne'')],
                      [((''bike'', ''melbourne''), [\<lparr>sub_chat_id = 3, sub_excluded_words = [], sub_fixed_lat = 0,
          sub_fixed_lon = 0, sub_modes = no_modes\<rparr>])]), snd ?g)"
    using noon_compiled by (metis prod.collapse)
  note t = compiler_contributes_iff_eligible [OF g]
  note a = t [THEN conjunct2, THEN conjunct1]
  note b = t [THEN conjunct2, THEN conjunct2, THEN conjunct2, THEN conjunct1, unfolded f]
  from noon_compiled a b show ?thesis by (intro conjI)
qed

lemma keyword_step_users:
  "keyword_step py clk v k (acc, st\<lparr>LOCATION_USERS := lu\<rparr>) =
     (case keyword_step py clk v k (acc, st) of
        (r, acc', st') \<Rightarrow> (r, acc', st'\<lparr>LOCATION_USERS := lu\<rparr>))"
  by (simp add: keyword_step_def Let_def split: sum.splits prod.splits)

lemma keyword_loop_users:
  "keyword_loop py clk v ks (acc, st\<lparr>LOCATION_USERS := lu\<rparr>) =
     (case keyword_loop py clk v ks (acc, st) of
        (r, acc', st') \<Rightarrow> (r, acc', st'\<lparr>LOCATION_USERS := lu\<rparr>))"
proof (induction ks arbitrary: acc st)
  case Nil
  then show ?case by simp
next
  case (Cons k ks)
  obtain r acc1 st1 where step: "keyword_step py clk v k (acc, st) = (r, acc1, st1)"
    by (cases "keyword_step py clk v k (acc, st)") auto
  then show ?case
    using Cons.IH [of acc1 st1] by (cases r) (simp_all add: keyword_step_users)
qed

lemma user_step_users:
  "forget_users (user_step py clk today v (acc, st\<lparr>LOCATION_USERS := lu\<rparr>)) =
   forget_users (user_step py clk today v (acc, st))"
proof -
  have k: "\<And>f g. forget_users (keyword_loop py clk v (user_keywords v) (acc, st\<lparr>LOCATION_USERS := f\<rparr>)) =
                 forget_users (keyword_loop py clk v (user_keywords v) (acc, st\<lparr>LOCATION_USERS := g\<rparr>))"
    by (simp add: keyword_loop_users forget_users_def split: prod.splits)
  show ?thesis
    by (simp add: user_step_def Let_def k forget_users_def [of "(None, acc, _)"]
          forget_users_def [of "(Some _, acc, _)"] split: sum.splits)
qed

lemma forget_users_step:
  "forget_users (r, acc, st\<lparr>LOCATION_USERS := lu\<rparr>) = forget_users (r, acc, st)"
  by (simp add: forget_users_def)

lemma user_loop_users:
  "forget_users (user_loop py clk today users (acc, st\<lparr>LOCATION_USERS := lu\<rparr>)) =
   forget_users (user_loop py clk today users (acc, st))"
proof (induction users arbitrary: acc st lu)
  case Nil
  then show ?case by (simp add: forget_users_def)
next
  case (Cons v users)
  obtain r acc1 st1 where s1: "user_step py clk today v (acc, st) = (r, acc1, st1)"
    by (cases "user_step py clk today v (acc, st)") auto
  obtain r2 acc2 st2 where s2:
    "user_step py clk today v (acc, st\<lparr>LOCATION_USERS := lu\<rparr>) = (r2, acc2, st2)"
    by (cases "user_step py clk today v (acc, st\<lparr>LOCATION_USERS := lu\<rparr>)") auto
  from user_step_users [where py = py and clk = clk and today = today and v = v and acc = acc and st = st and lu = lu] s1 s2
  have eq: "r2 = r" "acc2 = acc1" "st2\<lparr>LOCATION_USERS := Map.empty\<rparr> = st1\<lparr>LOCATION_USERS := Map.empty\<rparr>"
    by (simp_all add: forget_users_def)
  have st2: "st2 = st1\<lparr>LOCATION_USERS := LOCATION_USERS st2\<rparr>"
    using eq(3) by (cases st1, cases st2) simp
  show ?case
  proof (cases r)
    case (Some e)
    with s1 s2 eq show ?thesis by (simp add: forget_users_def)
  next
    case None
    have "forget_users (user_loop py clk today users (acc1, st2)) =
          forget_users (user_loop py clk today users (acc1, st1))"
      using Cons.IH [where acc = acc1 and st = st1 and lu = "LOCATION_USERS st2"] st2 by simp
    with None s1 s2 eq show ?thesis by simp
  qed
qed

lemma user_step_no_keywords:
  "eligible py today u \<Longrightarrow> user_keywords u = [] \<Longrightarrow>
   \<exists>lu. user_step py clk today u (acc, st) = (None, acc, st\<lparr>LOCATION_USERS := lu\<rparr>)"
  by (auto simp: user_step_def eligible_def skipped_def Let_def split: sum.splits option.splits)

lemma user_loop_removeAll:
  assumes "eligible py today u" and "user_keywords u = []"
  shows "forget_users (user_loop py clk today (removeAll u users) (acc, st)) =
         forget_users (user_loop py clk today users (acc, st))"
proof (induction users arbitrary: acc st)
  case Nil
  then show ?case by simp
next
  case (Cons v users)
  show ?case
  proof (cases "v = u")
    case True
    from user_step_no_keywords [OF assms, of clk acc st]
    obtain lu where "user_step py clk today u (acc, st) = (None, acc, st\<lparr>LOCATION_USERS := lu\<rparr>)"
      by blast
    with True Cons.IH [of acc st] show ?thesis by (simp add: user_loop_users)
  next
    case False
    obtain r acc1 st1 where s1: "user_step py clk today v (acc, st) = (r, acc1, st1)"
      by (cases "user_step py clk today v (acc, st)") auto
    with False Cons.IH [of acc1 st1] show ?thesis by (cases r) simp_all
  qed
qed

lemma generate_removeAll:
  assumes "eligible py (date_of sysnow) u" and "user_keywords u = []"
  shows "fst (generate_pairs_and_log py clk sysnow (removeAll u users) st) =
         fst (generate_pairs_and_log py clk sysnow users st)"
proof -
  let ?cs = "(\<lparr>pairs = [], user_pair_map = [], active_pairs = []\<rparr>, st\<lparr>LOCATION_USERS := Map.empty\<rparr>)"
  obtain r acc1 st1 where a: "user_loop py clk (date_of sysnow) users ?cs = (r, acc1, st1)"
    by (cases "user_loop py clk (date_of sysnow) users ?cs") auto
  obtain r2 acc2 st2 where b: "user_loop py clk (date_of sysnow) (removeAll u users) ?cs = (r2, acc2, st2)"
    by (cases "user_loop py clk (date_of sysnow) (removeAll u users) ?cs") auto
  from user_loop_removeAll [OF assms, where clk = clk and users = users
      and acc = "\<lparr>pairs = [], user_pair_map = [], active_pairs = []\<rparr>"
      and st = "st\<lparr>LOCATION_USERS := Map.empty\<rparr>"] a b
  have "r2 = r" "acc2 = acc1" by (simp_all add: forget_users_def)
  with a b show ?thesis
    by (simp add: generate_pairs_and_log_def Let_def split: option.splits sum.splits)
qed

lemma gather_send_ext:
  "\<exists>ext. snd (gather_send env message ids tr) = tr @ ext"
proof (induction ids arbitrary: tr)
  case Nil
  then show ?case by simp
next
  case (Cons uid ids)
  from send_message_first [of env message uid tr]
  obtain r ext1 where s: "send_message env message uid tr = (r, tr @ [Bot_send uid message] @ ext1)"
    by blast
  obtain e tr2 where g: "gather_send env message ids (tr @ [Bot_send uid message] @ ext1) = (e, tr2)"
    by (cases "gather_send env message ids (tr @ [Bot_send uid message] @ ext1)")
  from Cons.IH [of "tr @ [Bot_send uid message] @ ext1"] g
  obtain ext2 where "tr2 = (tr @ [Bot_send uid message] @ ext1) @ ext2" by auto
  with s g show ?case by simp
qed

lemma gather_send_reaches:
  "uid \<in> set ids \<Longrightarrow>
   \<exists>ext. snd (gather_send env message ids tr) = tr @ ext \<and> Bot_send uid message \<in> set ext"
proof (induction ids arbitrary: tr)
  case Nil
  then show ?case by simp
next
  case (Cons v ids)
  from send_message_first [of env message v tr]
  obtain r ext1 where s: "send_message env message v tr = (r, tr @ [Bot_send v message] @ ext1)"
    by blast
  let ?tr1 = "tr @ [Bot_send v message] @ ext1"
  obtain e tr2 where g: "gather_send env message ids ?tr1 = (e, tr2)"
    by (cases "gather_send env message ids ?tr1")
  show ?case
  proof (cases "uid = v")
    case True
    from gather_send_ext [of env message ids ?tr1] g
    obtain ext2 where "tr2 = ?tr1 @ ext2" by auto
    with s g True show ?thesis
      by (intro exI [of _ "[Bot_send v message] @ ext1 @ ext2"]) simp
  next
    case False
    with Cons.prems have "uid \<in> set ids" by simp
    from Cons.IH [OF this, of ?tr1] g
    obtain ext2 where "tr2 = ?tr1 @ ext2" "Bot_send uid message \<in> set ext2" by auto
    with s g show ?thesis
      by (intro exI [of _ "[Bot_send v message] @ ext1 @ ext2"]) simp
  qed
qed

lemma notify_status_change_reaches:
  assumes "uid \<in> ids_of st key"
  shows "\<exists>ext. trace (snd (notify_status_change py env key active reason nct st)) = trace st @ ext \<and>
           Bot_send uid (status_message py key active reason nct) \<in> set ext"
proof -
  from assms obtain ids where ids: "LOCATION_USERS st key = Some ids" "uid \<in> set ids"
    by (auto simp: ids_of_def split: option.splits)
  from gather_send_reaches [OF ids(2), of env "status_message py key active reason nct" "trace st"]
  obtain ext where "snd (gather_send env (status_message py key active reason nct) ids (trace st)) =
      trace st @ ext" "Bot_send uid (status_message py key active reason nct) \<in> set ext" by blast
  with ids(1) show ?thesis
    by (intro exI [of _ ext]) (auto simp: notify_status_change_def split: prod.splits)
qed

lemma generate_records_user:
  assumes "u \<in> set users" and "eligible py (date_of sysnow) u"
    and "generate_pairs_and_log py clk sysnow users st = (Inr (act, upm), st')"
  shows "user_id u \<in> ids_of st' (py_lower py (user_location u))"
proof -
  let ?cs = "(\<lparr>pairs = [], user_pair_map = [], active_pairs = []\<rparr>, st\<lparr>LOCATION_USERS := Map.empty\<rparr>)"
  obtain r acc1 st1 where a: "user_loop py clk (date_of sysnow) users ?cs = (r, acc1, st1)"
    by (cases "user_loop py clk (date_of sysnow) users ?cs") auto
  with assms(3) have r: "r = None" and st': "LOCATION_USERS st' = LOCATION_USERS st1"
    by (auto simp: generate_pairs_and_log_def Let_def split: option.splits sum.splits)
  from user_loop_result [OF a [unfolded r]] assms(1,2)
  have "user_id u \<in> ids_of st1 (py_lower py (user_location u))" by auto
  with st' show ?thesis by (simp add: ids_of_def)
qed


text \<open>
  C10 as the claim states it fails: an eligible user with no keyword is not added to the
  index when the compiler raises before it reaches that user's record, and is then left
  out of the status-change broadcasts of the location. The index is emptied at line 149
  and filled record by record; an exception leaves the function with the index as it
  stands. Here at noon the record before the user's has a malformed expiry date
  (ValueError at line 160) and the index stays empty; and at 23:00 on 31 January the
  record before the user's has a keyword, for which the schedule engine raises
  ValueError at line 183, and the index holds that record's chat id only. In both cases
  a status-change notification for Melbourne does not call the transport for the user.
\<close>

theorem keywordless_user_missed_when_compiler_raises:
  "eligible ascii_python (date_of (noon UTC)) erin \<and>
   eligible ascii_python (date_of (month_end_night UTC)) erin \<and>
   user_keywords erin = [] \<and> user_id erin = 5 \<and>
   py_lower ascii_python (user_location erin) = ''melbourne'' \<and>
   fst (generate_pairs_and_log ascii_python noon (noon UTC) [mallory, erin] daytime) =
     Inl ValueError \<and>
   LOCATION_USERS
     (snd (generate_pairs_and_log ascii_python noon (noon UTC) [mallory, erin] daytime))
     ''melbourne'' = None \<and>
   trace (snd (notify_status_change ascii_python world_ok ''melbourne'' False ''night'' None
     (snd (generate_pairs_and_log ascii_python noon (noon UTC) [mallory, erin] daytime)))) =
     [] \<and>
   fst (generate_pairs_and_log ascii_python month_end_night (month_end_night UTC) [carol, erin]
          daytime) = Inl ValueError \<and>
   LOCATION_USERS
     (snd (generate_pairs_and_log ascii_python month_end_night (month_end_night UTC)
             [carol, erin] daytime))
     ''melbourne'' = Some [3] \<and>
   trace (snd (notify_status_change ascii_python world_ok ''melbourne'' False ''night'' None
     (snd (generate_pairs_and_log ascii_python month_end_night (month_end_night UTC)
             [carol, erin] daytime)))) =
     [Bot_send 3 (status_message ascii_python ''melbourne'' False ''night'' None)]"
proof -
  have e: "user_keywords erin = []" "user_id erin = 5"
    "py_lower ascii_python (user_location erin) = ''melbourne''"
    by (simp_all add: erin_def carol_def ascii_python_simps ascii_lower_def char_defs)
  have m: "generate_pairs_and_log ascii_python noon (noon UTC) [mallory, erin] daytime =
     (Inl ValueError, daytime\<lparr>LOCATION_USERS := Map.empty\<rparr>)"
    by (simp add: generate_pairs_and_log_def user_step_def Let_def mallory_def carol_def
          ascii_python_simps sample_expiry)
  have n: "trace (snd (notify_status_change ascii_python world_ok ''melbourne'' False ''night''
      None (daytime\<lparr>LOCATION_USERS := Map.empty\<rparr>))) = []"
    by (simp add: notify_status_change_def daytime_def)
  have r: "is_monitoring_active ascii_python month_end_night ''melbourne'' = Inl ValueError"
    by (simp add: schedule_defs tz_defs char_defs month_end_night_def days_in_month_def)
  have c: "generate_pairs_and_log ascii_python month_end_night (month_end_night UTC)
             [carol, erin] daytime =
     (Inl ValueError, daytime\<lparr>LOCATION_USERS := [''melbourne'' \<mapsto> [3]]\<rparr>)"
    using month_end_eligible(1)
    by (simp add: generate_pairs_and_log_def user_step_def keyword_step_def Let_def r
          eligible_def skipped_def set_add_def carol_def ascii_python_simps sample_expiry
          ascii_lower_def char_defs split: sum.splits option.splits)
  have s: "trace (snd (notify_status_change ascii_python world_ok ''melbourne'' False ''night''
      None (daytime\<lparr>LOCATION_USERS := [''melbourne'' \<mapsto> [3]]\<rparr>))) =
     [Bot_send 3 (status_message ascii_python ''melbourne'' False ''night'' None)]"
    by (simp add: notify_status_change_def daytime_def send_message_unfold world_ok_def)
  from e m n c s sample_eligible(3) month_end_eligible(2) show ?thesis by simp
qed

text \<open>
  C10, amended. Let an eligible user have no keyword, and let the compiler return. Then
  the active pairs and the subscriber map are those the compiler returns without that
  user, so no work item exists on the user's account; the user's chat id is recorded under
  the lowercased location; and every status-change notification for that location calls
  the transport for that chat id, with the status message.
\<close>

theorem keywordless_user_still_notified:
  assumes "u \<in> set users" and "eligible py (date_of sysnow) u" and "user_keywords u = []"
    and "generate_pairs_and_log py clk sysnow users st = (Inr (act, upm), st')"
  shows "fst (generate_pairs_and_log py clk sysnow (removeAll u users) st) = Inr (act, upm) \<and>
         user_id u \<in> ids_of st' (py_lower py (user_location u)) \<and>
         (\<forall>env active reason nct.
            \<exists>ext. trace (snd (notify_status_change py env (py_lower py (user_location u)) active
                                reason nct st')) = trace st' @ ext \<and>
                  Bot_send (user_id u)
                    (status_message py (py_lower py (user_location u)) active reason nct)
                  \<in> set ext)"
proof -
  have a: "fst (generate_pairs_and_log py clk sysnow (removeAll u users) st) = Inr (act, upm)"
    using generate_removeAll [OF assms(2,3), where clk = clk and users = users and st = st]
      assms(4) by simp
  note b = generate_records_user [OF assms(1,2,4)]
  from a b notify_status_change_reaches [OF b] show ?thesis by blast
qed

theorem keywordless_user_still_notified_witness:
  "fst (generate_pairs_and_log ascii_python noon (noon UTC) [carol, dave] daytime) =
     Inr ([(''bike'', ''melbourne'')], [((''bike'', ''melbourne''), [\<lparr>sub_chat_id = 3, sub_excluded_words = [], sub_fixed_lat = 0,
          sub_fixed_lon = 0, sub_modes = no_modes\<rparr>])]) \<and>
   5 \<in> ids_of (snd (generate_pairs_and_log ascii_python noon (noon UTC) [carol, dave, erin]
                       daytime))
         ''melbourne'' \<and>
   (\<exists>ext. trace (snd (notify_status_change ascii_python world_ok ''melbourne'' False ''night''
                        None
                        (snd (generate_pairs_and_log ascii_python noon (noon UTC)
                                [carol, dave, erin] daytime)))) =
           trace (snd (generate_pairs_and_log ascii_python noon (noon UTC) [carol, dave, erin]
                         daytime)) @ ext \<and>
           Bot_send 5 (status_message ascii_python ''melbourne'' False ''night'' None)
           \<in> set ext)"
proof -
  let ?g = "generate_pairs_and_log ascii_python noon (noon UTC) [carol, dave, erin] daytime"
  have h1: "erin \<in> set [carol, dave, erin]" by simp
  have h3: "user_keywords erin = []" by (simp add: erin_def)
  have h4: "?g = (Inr ([(''bike'', ''melbourne'')],
                       [((''bike'', ''melbourne''), [\<lparr>sub_chat_id = 3, sub_excluded_words = [], sub_fixed_lat = 0,
          sub_fixed_lon = 0, sub_modes = no_modes\<rparr>])]), snd ?g)"
    using noon_compiled by (metis prod.collapse)
  have r: "removeAll erin [carol, dave, erin] = [carol, dave]"
    by (simp add: carol_def dave_def erin_def)
  have l: "py_lower ascii_python (user_location erin) = ''melbourne''" "user_id erin = 5"
    by (simp_all add: erin_def carol_def ascii_python_simps ascii_lower_def char_defs)
  note t = keywordless_user_still_notified [OF h1 sample_eligible(3) h3 h4, unfolded r l]
  note a = t [THEN conjunct1]
  note b = t [THEN conjunct2, THEN conjunct1]
  note c = t [THEN conjunct2, THEN conjunct2, rule_format,
              where env = world_ok and active = False and reason = "''night''" and nct = None]
  from a b c show ?thesis by (intro conjI)
qed

section \<open>The status tracker\<close>

lemmas round_defs =
  monitor_round_def check_and_update_schedules_def check_marketplace_pair_def
  status_transition_def

lemmas compiler_defs =
  generate_pairs_and_log_def user_step_def keyword_step_def skipped_def subscriber_config_def
  date_of_def date_less_def set_add_def map_append_def lookup_list_def
  ascii_strptime_def year_field_def month_field_def day_field_def is_digit_def digit_val_def
  nat_of_digits_def days_in_month_def is_leap_def

lemma noon_schedule: "get_monitoring_schedule ascii_python noon ''melbourne'' = Inr day_schedule"
  by (simp add: schedule_defs tz_defs char_defs noon_def format_defs day_schedule_def)

lemma night_inactive:
  "is_monitoring_active ascii_python night ''melbourne'' =
     Inr (False, ''Nighttime hours in melbourne (local time: 23:00). Resuming at 06:30'',
          \<lparr>year = 2024, month = 1, day = 16, hour = 6, minute = 30, second = 0,
           microsecond = 0\<rparr>)"
  by (simp add: schedule_defs tz_defs char_defs night_def days_in_month_def night_reason_def
        format_defs)

lemma night_schedule:
  "get_monitoring_schedule ascii_python night ''melbourne'' =
     Inr \<lparr>sched_location = ''melbourne'', sched_timezone = ''Australia/Melbourne'',
          local_time = ''2024-01-15 23:00:00'', is_active = False,
          next_change = ''2024-01-16 06:30:00'', next_status = ''active'',
          active_hours = ''06:30 - 22:00''\<rparr>"
  by (simp add: schedule_defs tz_defs char_defs night_def days_in_month_def format_defs)

lemma round_eval:
  "fst (monitor_round ascii_python world_ok night (noon UTC) [carol] [bike_melbourne] daytime) = None \<and>
   trace (snd (monitor_round ascii_python world_ok night (noon UTC) [carol] [bike_melbourne] daytime)) =
     [Write_pairs_log
        [''bike - melbourne [PAUSED] - Nighttime hours in melbourne (local time: 23:00). Resuming at 06:30'' @ newline],
      Save_status] \<and>
   map_option is_active
     (LOCATION_STATUS (snd (monitor_round ascii_python world_ok night (noon UTC) [carol] [bike_melbourne] daytime))
        ''melbourne'') = Some False"
  by (simp add: Let_def round_defs compiler_defs night_inactive night_schedule carol_def no_modes_def
        daytime_def day_schedule_def bike_melbourne_def noon_def ascii_python_simps ascii_lower_def char_defs)

lemma sibling_eval:
  "trace (snd (check_and_update_schedules ascii_python world_ok night [bike_melbourne] daytime)) =
     [Bot_send 3
        (status_message ascii_python ''melbourne'' False
           ''Nighttime hours in melbourne (local time: 23:00). Resuming at 06:30''
           (Some \<lparr>year = 2024, month = 1, day = 16, hour = 6, minute = 30, second = 0,
                  microsecond = 0\<rparr>)),
      Save_status]"
  by (simp add: Let_def round_defs night_inactive night_schedule notify_status_change_def
        daytime_def day_schedule_def bike_melbourne_def ascii_python_simps ascii_lower_def char_defs
        send_message_unfold world_ok_def)

text \<open>
  C1 (the code departs from the claim). The claim: a status-change broadcast is emitted
  exactly when the computed activity differs from the recorded one. The code: within a
  round \<open>generate_pairs_and_log\<close> runs first and overwrites the record of every location
  whose activity has flipped, without notifying; \<open>check_and_update_schedules\<close> and
  \<open>check_marketplace_pair\<close> then find no difference. With Melbourne recorded active and
  the clock at 23:00, the round sends nothing and leaves Melbourne recorded inactive,
  whereas \<open>check_and_update_schedules\<close> alone, on the same state, notifies the subscriber.
  The recorded schedule is the one \<open>get_monitoring_schedule\<close> gives at noon.
\<close>

theorem flip_swallowed_by_compiler:
  "get_monitoring_schedule ascii_python noon ''melbourne'' = Inr day_schedule \<and>
   LOCATION_STATUS daytime ''melbourne'' = Some day_schedule \<and>
   map_option is_active (LOCATION_STATUS daytime ''melbourne'') = Some True \<and>
   is_monitoring_active ascii_python night ''melbourne'' =
     Inr (False, ''Nighttime hours in melbourne (local time: 23:00). Resuming at 06:30'',
          \<lparr>year = 2024, month = 1, day = 16, hour = 6, minute = 30, second = 0,
           microsecond = 0\<rparr>) \<and>
   fst (monitor_round ascii_python world_ok night (noon UTC) [carol] [bike_melbourne] daytime) = None \<and>
   trace (snd (monitor_round ascii_python world_ok night (noon UTC) [carol] [bike_melbourne] daytime)) =
     [Write_pairs_log
        [''bike - melbourne [PAUSED] - Nighttime hours in melbourne (local time: 23:00). Resuming at 06:30'' @ newline],
      Save_status] \<and>
   map_option is_active
     (LOCATION_STATUS (snd (monitor_round ascii_python world_ok night (noon UTC) [carol] [bike_melbourne] daytime))
        ''melbourne'') = Some False \<and>
   trace (snd (check_and_update_schedules ascii_python world_ok night [bike_melbourne] daytime)) =
     [Bot_send 3
        (status_message ascii_python ''melbourne'' False
           ''Nighttime hours in melbourne (local time: 23:00). Resuming at 06:30''
           (Some \<lparr>year = 2024, month = 1, day = 16, hour = 6, minute = 30, second = 0,
                  microsecond = 0\<rparr>)),
      Save_status]"
  using noon_schedule night_inactive round_eval sibling_eval
  by (simp add: daytime_def day_schedule_def)

end
